theory Spec2Isabelle
  imports Complex_Main
begin

section \<open>Go values used by the tools package\<close>

text \<open>
  Go strings are byte sequences: \<^typ>\<open>string\<close>. A Go \<open>error\<close> is modelled by its message
  (what \<open>%v\<close> prints), and a fallible call returns \<open>go_error + 'a\<close> with \<open>Inl\<close> the error.
  A handler either returns a tool result or panics; deferred calls run in both cases.
\<close>

type_synonym go_error = string

datatype 'a outcome = Return 'a | Panic string

datatype tool_result = ToolResultError string | ToolResultText string

subsection \<open>\<open>strings.HasPrefix\<close>, \<open>strings.Contains\<close>, \<open>fmt.Sprintf("%d")\<close>, slicing\<close>

fun HasPrefix :: "string \<Rightarrow> string \<Rightarrow> bool" where
  "HasPrefix s [] = True"
| "HasPrefix [] (p # ps) = False"
| "HasPrefix (c # s) (p # ps) = (c = p \<and> HasPrefix s ps)"

fun Contains :: "string \<Rightarrow> string \<Rightarrow> bool" where
  "Contains [] substr = (substr = [])"
| "Contains (c # s) substr = (HasPrefix (c # s) substr \<or> Contains s substr)"

fun nat_dec :: "nat \<Rightarrow> string" where
  "nat_dec n = (if n < 10 then [''0123456789'' ! n]
                else nat_dec (n div 10) @ [''0123456789'' ! (n mod 10)])"

declare nat_dec.simps [simp del]

definition format_d :: "int \<Rightarrow> string" where
  \<comment> \<open>\<open>fmt.Sprintf("%d", i)\<close>\<close>
  "format_d i = (if i < 0 then ''-'' @ nat_dec (nat (- i)) else nat_dec (nat i))"

definition slice_to :: "string \<Rightarrow> nat \<Rightarrow> string outcome" where
  \<comment> \<open>\<open>s[:n]\<close>: a run-time panic when \<open>n\<close> exceeds \<open>len(s)\<close>\<close>
  "slice_to s n = (if n \<le> length s then Return (take n s)
                   else Panic ''slice bounds out of range'')"

definition GetString :: "string option \<Rightarrow> string \<Rightarrow> string" where
  \<comment> \<open>\<open>request.GetString(name, dflt)\<close> on an optional argument\<close>
  "GetString arg dflt = (case arg of None \<Rightarrow> dflt | Some v \<Rightarrow> v)"


fun Split :: "string \<Rightarrow> char \<Rightarrow> string list" where
  \<comment> \<open>\<open>strings.Split(s, sep)\<close> for a separator of one byte: never an empty list\<close>
  "Split [] sep = [[]]"
| "Split (c # s) sep =
     (if c = sep then [] # Split s sep
      else (case Split s sep of
              [] \<Rightarrow> [[c]]
            | piece # pieces \<Rightarrow> (c # piece) # pieces))"

fun Join :: "string list \<Rightarrow> string \<Rightarrow> string" where
  \<comment> \<open>\<open>strings.Join(elems, sep)\<close>\<close>
  "Join [] sep = []"
| "Join [e] sep = e"
| "Join (e # es) sep = e @ sep @ Join es sep"

section \<open>Test generation (shared.go, create\_ui\_test.go, generate\_api\_tests.go)\<close>

subsection \<open>\<open>ParseUIInstructions\<close> and \<open>generateK6UITest\<close>\<close>

definition click_action :: string where
  "click_action = ''await page.locator('button').click();''"

definition type_action :: string where
  "type_action = ''await page.locator('input').type('test data');''"

definition wait_action :: string where
  "wait_action = ''await page.waitForTimeout(1000);''"

text \<open>
  \<open>strings.ToLower\<close> belongs to the Go library; the parser is modelled over any lowering
  function \<open>ToLower\<close>, and \<open>ascii_lower\<close> is the library function on ASCII text.
\<close>

definition ParseUIInstructions :: "(string \<Rightarrow> string) \<Rightarrow> string \<Rightarrow> string list" where
  "ParseUIInstructions ToLower instructions =
     (let actions0 = [];
          instructions = ToLower instructions;
          actions1 = (if Contains instructions ''click''
                      then (if Contains instructions ''button''
                            then actions0 @ [click_action] else actions0)
                      else actions0);
          actions2 = (if Contains instructions ''type'' \<or> Contains instructions ''enter''
                      then actions1 @ [type_action] else actions1);
          actions3 = (if Contains instructions ''wait''
                      then actions2 @ [wait_action] else actions2)
      in actions3)"

definition ascii_lower_char :: "char \<Rightarrow> char" where
  "ascii_lower_char c =
     (case map_of (zip ''ABCDEFGHIJKLMNOPQRSTUVWXYZ'' ''abcdefghijklmnopqrstuvwxyz'') c of
        None \<Rightarrow> c
      | Some l \<Rightarrow> l)"

definition ascii_lower :: "string \<Rightarrow> string" where
  "ascii_lower s = map ascii_lower_char s"

definition ui_script_head :: "string \<Rightarrow> string" where
  \<comment> \<open>the first template of \<open>generateK6UITest\<close>, \<open>%s\<close> replaced by the url\<close>
  "ui_script_head url =
     ''import { browser } from 'k6/experimental/browser';\<newline>'' @
     ''import { check } from 'k6';\<newline>'' @
     ''\<newline>'' @
     ''export const options = {\<newline>'' @
     ''  scenarios: {\<newline>'' @
     ''    browser: {\<newline>'' @
     ''      executor: 'shared-iterations',\<newline>'' @
     ''      vus: 1,\<newline>'' @
     ''      iterations: 1,\<newline>'' @
     ''      options: {\<newline>'' @
     ''        browser: {\<newline>'' @
     ''          type: 'chromium',\<newline>'' @
     ''        },\<newline>'' @
     ''      },\<newline>'' @
     ''    },\<newline>'' @
     ''  },\<newline>'' @
     ''};\<newline>'' @
     ''\<newline>'' @
     ''export default async function () {\<newline>'' @
     ''  const page = browser.newPage();\<newline>'' @
     ''  \<newline>'' @
     ''  try {\<newline>'' @
     ''    await page.goto('' @ [CHR 0x27] @ url @ [CHR 0x27] @ '');\<newline>'' @
     ''    \<newline>''"

definition ui_script_tail :: string where
  "ui_script_tail =
     ''  } finally {\<newline>'' @
     ''    page.close();\<newline>'' @
     ''  }\<newline>'' @
     ''}''"

fun append_actions :: "string \<Rightarrow> string list \<Rightarrow> string" where
  \<comment> \<open>\<open>for _, action := range actions { script += "    " + action + "\n" }\<close>\<close>
  "append_actions script [] = script"
| "append_actions script (action # actions) =
     append_actions (script @ ''    '' @ action @ ''\<newline>'') actions"

definition generateK6UITest :: "(string \<Rightarrow> string) \<Rightarrow> string \<Rightarrow> string \<Rightarrow> string" where
  "generateK6UITest ToLower url instructions =
     (let actions = ParseUIInstructions ToLower instructions;
          script = ui_script_head url;
          script = append_actions script actions;
          script = script @ ui_script_tail
      in script)"

subsection \<open>\<open>GetExecutorType\<close>, \<open>GetScenarioConfig\<close>, \<open>generateK6APITest\<close>\<close>

definition GetExecutorType :: "string \<Rightarrow> string" where
  "GetExecutorType testType =
     (if testType = ''stress'' then ''ramping-vus''
      else if testType = ''spike'' then ''ramping-arrival-rate''
      else ''constant-vus'')"

definition GetScenarioConfig :: "string \<Rightarrow> string" where
  "GetScenarioConfig testType =
     (if testType = ''stress'' then
        ''stages: [\<newline>'' @
        ''        { duration: '2m', target: 100 },\<newline>'' @
        ''        { duration: '5m', target: 100 },\<newline>'' @
        ''        { duration: '2m', target: 0 },\<newline>'' @
        ''      ],''
      else if testType = ''spike'' then
        ''startRate: 10,\<newline>'' @
        ''      timeUnit: '1s',\<newline>'' @
        ''      stages: [\<newline>'' @
        ''        { duration: '30s', target: 10 },\<newline>'' @
        ''        { duration: '10s', target: 100 },\<newline>'' @
        ''        { duration: '30s', target: 10 },\<newline>'' @
        ''      ],''
      else
        ''vus: 10,\<newline>'' @
        ''      duration: '30s','')"

definition generateK6APITest :: "string \<Rightarrow> string \<Rightarrow> string \<Rightarrow> string" where
  "generateK6APITest specId endpoints testType =
     ''import http from 'k6/http';\<newline>'' @
     ''import { check } from 'k6';\<newline>'' @
     ''\<newline>'' @
     ''export const options = {\<newline>'' @
     ''  scenarios: {\<newline>'' @
     ''    '' @ testType @ ''_test: {\<newline>'' @
     ''      executor: '' @ [CHR 0x27] @ GetExecutorType testType @ [CHR 0x27] @ '',\<newline>'' @
     ''      '' @ GetScenarioConfig testType @ ''\<newline>'' @
     ''    },\<newline>'' @
     ''  },\<newline>'' @
     ''};\<newline>'' @
     ''\<newline>'' @
     ''export default function () {\<newline>'' @
     ''  // Generated from spec '' @ specId @ ''\<newline>'' @
     ''  // Testing endpoints: '' @ endpoints @ ''\<newline>'' @
     ''  const res = http.get('http://localhost:8080/api/endpoint');\<newline>'' @
     ''  check(res, {\<newline>'' @
     ''    'status is 200': (r) => r.status === 200,\<newline>'' @
     ''  });\<newline>'' @
     ''}''"

subsection \<open>\<open>GenerateAPITestsTool.Handle\<close>\<close>

text \<open>
  The request carries optional string arguments. The store answers the two statements of the
  handler: the session of the spec (\<open>SELECT session_id FROM api_specs WHERE id = ?\<close>) and the
  insertion of the generated test, which yields the new test id.
\<close>

record generate_request =
  gen_specId :: "string option"
  gen_endpoints :: "string option"
  gen_testType :: "string option"

record generate_store =
  spec_session :: "string \<Rightarrow> go_error + int"
  insert_test :: "int \<Rightarrow> string \<Rightarrow> string \<Rightarrow> go_error + int"

definition GenerateAPITestsTool_Handle ::
  "generate_store \<Rightarrow> generate_request \<Rightarrow> tool_result outcome" where
  "GenerateAPITestsTool_Handle db request =
     (case gen_specId request of
        None \<Rightarrow> Return (ToolResultError ''Missing required specId'')
      | Some specId \<Rightarrow>
          (let endpoints = GetString (gen_endpoints request) '''';
               testType = GetString (gen_testType request) ''load''
           in case spec_session db specId of
                Inl err \<Rightarrow> Return (ToolResultError (''Spec not found: '' @ err))
              | Inr sessionId \<Rightarrow>
                  (let script = generateK6APITest specId endpoints testType
                   in case insert_test db sessionId testType script of
                        Inl err \<Rightarrow> Return (ToolResultError (''Failed to store test: '' @ err))
                      | Inr testId \<Rightarrow>
                          (case slice_to script 200 of
                             Panic msg \<Rightarrow> Panic msg
                           | Return preview \<Rightarrow>
                               Return (ToolResultText
                                 (''Generated '' @ testType @ '' test with ID: '' @ format_d testId @
                                  ''\<newline>\<newline>Script preview:\<newline>'' @ preview @ ''...''))))))"

section \<open>The store, the environment and handler programs\<close>

subsection \<open>Rows of the relational store (\<open>initDB\<close> in main.go)\<close>

text \<open>
  One record per table, with the columns the tools read or write. Identifiers are the
  integer primary keys; timestamps are clock readings. The SLA columns of \<open>endpoints\<close> may
  be NULL (\<open>None\<close>), as may the completion columns of sessions and runs.
\<close>

record compose_file_row =
  cf_id :: int
  cf_source_url :: string
  cf_content :: string
  cf_hash :: string

record session_row =
  ts_id :: int
  ts_compose_file_id :: int
  ts_session_name :: string
  ts_completed_at :: "int option"
  ts_status :: string

record service_row =
  sv_id :: int
  sv_session_id :: int
  sv_name :: string
  sv_image :: string
  sv_ports :: string

record api_spec_row =
  sp_id :: int
  sp_session_id :: int
  sp_spec_url :: string

record endpoint_row =
  ep_path :: string
  ep_sla_response_time :: "int option"
  ep_sla_error_rate :: "real option"

record test_row =
  t_id :: int
  t_session_id :: int
  t_name :: string
  t_type :: string
  t_script :: string

record test_run_row =
  tr_id :: int
  tr_test_id :: string
  tr_completed_at :: "int option"
  tr_vus :: int
  tr_duration :: string
  tr_results :: "string option"

record metric_row =
  m_run_id :: int
  m_endpoint :: string
  m_avg_response_time :: real
  m_min_response_time :: real
  m_max_response_time :: real
  m_error_rate :: real
  m_requests_per_second :: real

subsection \<open>Statements sent to the store and calls that leave the process\<close>

datatype stmt =
    SelectComposeIdByHash string
  | InsertComposeFile string string string
  | SelectLatestSession
  | SelectComposeContent int
  | SelectServices int
  | InsertApiSpec int string
  | SelectTest string
  | SelectSessionCompose int
  | InsertTestRun string int string
  | UpdateTestRunResults int string
  | UpdateTestRunCompleted int
  | InsertMetrics int
  | InsertSession int string string
  | InsertService int string string string
  | InsertTest int string string string
  | UpdateSessionCompleted int
  | SelectRunMetrics string
  | SelectEndpointSla string
  | SelectHistoricalAverage string string

datatype event =
    HttpGet string
  | ReadFile string
  | MkdirAll string
  | WriteFile string string
  | RemoveAll string
  | CreateTemp string
  | WriteString string string
  | Remove string
  | ComposeUp string string bool
  | ComposeDown string string
  | Sleep nat
  | K6Run "string list"
  | Db stmt

text \<open>
  \<open>ComposeUp path project ok\<close> is \<open>docker compose -f path -p project up -d\<close> with \<open>ok\<close> telling
  whether the command succeeded; \<open>ComposeDown path project\<close> is
  \<open>docker compose -f path -p project down -v\<close>; \<open>RemoveAll dir\<close> is \<open>os.RemoveAll(dir)\<close>.
\<close>

record world =
  db_compose_files :: "compose_file_row list"
  db_test_sessions :: "session_row list"
  db_services :: "service_row list"
  db_api_specs :: "api_spec_row list"
  db_endpoints :: "endpoint_row list"
  db_tests :: "test_row list"
  db_test_runs :: "test_run_row list"
  db_metrics :: "metric_row list"
  trace :: "event list"

subsection \<open>What the environment answers\<close>

datatype http_response = Response (StatusCode: int) (Body: "go_error + string")

record compose_service =
  Image :: string
  Ports :: "string list"

text \<open>
  Everything outside the tools package is a parameter: the network, the file system, the
  container runtime, k6, the clock, library functions (\<open>md5\<close>, \<open>filepath\<close>, \<open>yaml\<close>,
  \<open>strings.TrimSpace\<close>, the \<open>%.nf\<close> verb of \<open>fmt\<close> as \<open>fmt_float n\<close>), and the faults of the storage engine (\<open>db_fault\<close>: the error a
  statement meets for reasons other than the data, if any). \<open>latest_session\<close> is the
  store's answer to \<open>SELECT id, compose_file_id FROM test_sessions ORDER BY created_at DESC
  LIMIT 1\<close>. The \<open>test_sessions\<close> table that \<open>initDB\<close> creates has the column \<open>started_at\<close>
  and no column \<open>created_at\<close>, so on such a store the statement fails; the answer is a
  parameter, so that a store whose table has the column is covered as well. \<open>sql_text_eq_int\<close> is SQLite's comparison of an integer
  column with a bound text argument. The clock is read as a function of the number of
  events so far.
\<close>

record environment =
  http_Get :: "string \<Rightarrow> go_error + http_response"
  os_ReadFile :: "string \<Rightarrow> go_error + string"
  os_TempDir :: string
  filepath_Join :: "string \<Rightarrow> string \<Rightarrow> string"
  filepath_Dir :: "string \<Rightarrow> string"
  os_MkdirAll :: "string \<Rightarrow> go_error option"
  os_WriteFile :: "string \<Rightarrow> string \<Rightarrow> go_error option"
  os_CreateTemp :: "string \<Rightarrow> go_error + string"
  time_Now :: "nat \<Rightarrow> int"
  docker_compose_up :: "string \<Rightarrow> string \<Rightarrow> string \<times> go_error option"
  docker_compose_down :: "string \<Rightarrow> string \<Rightarrow> go_error option"
  k6_run :: "string list \<Rightarrow> string \<times> go_error option"
  md5_hex :: "string \<Rightarrow> string"
  fmt_float :: "nat \<Rightarrow> real \<Rightarrow> string"
  strings_TrimSpace :: "string \<Rightarrow> string"
  yaml_Unmarshal :: "string \<Rightarrow> go_error option \<times> (string \<times> compose_service) list"
  map_range :: "nat \<Rightarrow> (string \<times> compose_service) list \<Rightarrow> (string \<times> compose_service) list"
  db_fault :: "stmt \<Rightarrow> go_error option"
  latest_session :: "session_row list \<Rightarrow> go_error + int \<times> int"
  sql_text_eq_int :: "string \<Rightarrow> int \<Rightarrow> bool"

subsection \<open>Handler programs: sequencing, early return, panic and \<open>defer\<close>\<close>

text \<open>
  A program step transforms the world and either continues with a value (\<open>Next\<close>) or
  leaves the function (\<open>Stop\<close>): by a \<open>return\<close> statement or by a panic. \<open>go_defer cleanup rest\<close>
  is Go's \<open>defer cleanup(); rest\<close>: the cleanup runs when the rest of the function has
  finished, however it finished. Nested defers therefore run last-in first-out.
\<close>

datatype 'a res = Next 'a | Stop "tool_result outcome"

type_synonym 'a prog = "world \<Rightarrow> world \<times> 'a res"

definition yield :: "'a \<Rightarrow> 'a prog" where
  "yield x w = (w, Next x)"

definition return_result :: "tool_result \<Rightarrow> 'a prog" where
  "return_result r w = (w, Stop (Return r))"

definition go_panic :: "string \<Rightarrow> 'a prog" where
  "go_panic msg w = (w, Stop (Panic msg))"

definition and_then :: "'a prog \<Rightarrow> ('a \<Rightarrow> 'b prog) \<Rightarrow> 'b prog" where
  "and_then m f w = (case m w of (w', Next x) \<Rightarrow> f x w' | (w', Stop out) \<Rightarrow> (w', Stop out))"

definition go_defer :: "(world \<Rightarrow> world) \<Rightarrow> 'a prog \<Rightarrow> 'a prog" where
  "go_defer cleanup rest w = (case rest w of (w', r) \<Rightarrow> (cleanup w', r))"

definition call :: "tool_result prog \<Rightarrow> world \<Rightarrow> world \<times> tool_result outcome" where
  \<comment> \<open>a handler call: falling off the end with a value is its final \<open>return\<close>\<close>
  "call handler w = (case handler w of (w', Next r) \<Rightarrow> (w', Return r) | (w', Stop out) \<Rightarrow> (w', out))"

definition record_event :: "event \<Rightarrow> world \<Rightarrow> world" where
  "record_event e w = w\<lparr>trace := trace w @ [e]\<rparr>"

definition perform :: "event \<Rightarrow> 'a \<Rightarrow> 'a prog" where
  \<comment> \<open>an external call, observed as \<open>e\<close>, whose answer is \<open>x\<close>\<close>
  "perform e x w = (record_event e w, Next x)"

definition now :: "environment \<Rightarrow> int prog" where
  \<comment> \<open>\<open>time.Now()\<close> in nanoseconds since the epoch\<close>
  "now env w = (w, Next (time_Now env (length (trace w))))"

definition Unix :: "int \<Rightarrow> int" where
  \<comment> \<open>\<open>t.Unix()\<close>: whole seconds\<close>
  "Unix t = t div 1000000000"

definition db_stmt ::
  "environment \<Rightarrow> stmt \<Rightarrow> (world \<Rightarrow> world \<times> (go_error + 'a)) \<Rightarrow> (go_error + 'a) prog" where
  \<comment> \<open>a statement either meets a fault of the engine or is evaluated on the tables\<close>
  "db_stmt env s eval w =
     (let w1 = record_event (Db s) w
      in case db_fault env s of
           Some err \<Rightarrow> (w1, Next (Inl err))
         | None \<Rightarrow> (case eval w1 of (w2, r) \<Rightarrow> (w2, Next r)))"

definition ErrNoRows :: go_error where
  "ErrNoRows = ''sql: no rows in result set''"

definition next_id :: "int list \<Rightarrow> int" where
  \<comment> \<open>\<open>INTEGER PRIMARY KEY AUTOINCREMENT\<close> on a table from which nothing is deleted\<close>
  "next_id ids = fold max ids 0 + 1"

definition compose_up :: "environment \<Rightarrow> string \<Rightarrow> string \<Rightarrow> (string \<times> go_error option) prog" where
  \<comment> \<open>\<open>exec.CommandContext(ctx, "docker", "compose", "-f", path, "-p", project, "up", "-d").CombinedOutput()\<close>\<close>
  "compose_up env path project =
     perform (ComposeUp path project (snd (docker_compose_up env path project) = None))
       (docker_compose_up env path project)"

definition compose_down :: "environment \<Rightarrow> string \<Rightarrow> string \<Rightarrow> world \<Rightarrow> world" where
  \<comment> \<open>\<open>exec.Command("docker", "compose", "-f", path, "-p", project, "down", "-v").Run()\<close>, its error only logged\<close>
  "compose_down env path project w = record_event (ComposeDown path project) w"

definition os_RemoveAll :: "string \<Rightarrow> world \<Rightarrow> world" where
  "os_RemoveAll dir w = record_event (RemoveAll dir) w"

definition os_Remove :: "string \<Rightarrow> world \<Rightarrow> world" where
  "os_Remove name w = record_event (Remove name) w"

section \<open>Compose source resolver and runtime naming (shared.go)\<close>

subsection \<open>\<open>FetchComposeContent\<close>\<close>

definition FetchComposeContent :: "environment \<Rightarrow> string \<Rightarrow> (go_error + string) prog" where
  "FetchComposeContent env source =
     (if HasPrefix source ''http://'' \<or> HasPrefix source ''https://'' then
        and_then (perform (HttpGet source) (http_Get env source)) (\<lambda>got.
          case got of
            Inl err \<Rightarrow> yield (Inl (''failed to download compose file: '' @ err))
          | Inr resp \<Rightarrow>
              if StatusCode resp \<noteq> 200
              then yield (Inl (''failed to download compose file: status '' @ format_d (StatusCode resp)))
              else (case Body resp of
                      Inl err \<Rightarrow> yield (Inl (''failed to read response: '' @ err))
                    | Inr content \<Rightarrow> yield (Inr content)))
      else
        and_then (perform (ReadFile source) (os_ReadFile env source)) (\<lambda>got.
          case got of
            Inl err \<Rightarrow> yield (Inl (''failed to read compose file: '' @ err))
          | Inr content \<Rightarrow> yield (Inr content)))"

subsection \<open>\<open>StoreComposeFile\<close>\<close>

definition select_compose_id_by_hash :: "string \<Rightarrow> world \<Rightarrow> world \<times> (go_error + int)" where
  \<comment> \<open>\<open>QueryRow("SELECT id FROM compose_files WHERE hash = ?", hashStr).Scan(&existingId)\<close>\<close>
  "select_compose_id_by_hash hashStr w =
     (w, case find (\<lambda>row. cf_hash row = hashStr) (db_compose_files w) of
           None \<Rightarrow> Inl ErrNoRows
         | Some row \<Rightarrow> Inr (cf_id row))"

definition insert_compose_file :: "string \<Rightarrow> string \<Rightarrow> string \<Rightarrow> world \<Rightarrow> world \<times> (go_error + int)" where
  \<comment> \<open>\<open>Exec("INSERT INTO compose_files (source_url, content, hash) VALUES (?, ?, ?)", ...)\<close> and \<open>LastInsertId()\<close>\<close>
  "insert_compose_file source content hashStr w =
     (let newId = next_id (map cf_id (db_compose_files w))
      in (w\<lparr>db_compose_files := db_compose_files w @
               [\<lparr>cf_id = newId, cf_source_url = source, cf_content = content, cf_hash = hashStr\<rparr>]\<rparr>,
          Inr newId))"

definition StoreComposeFile :: "environment \<Rightarrow> string \<Rightarrow> string \<Rightarrow> (go_error + int) prog" where
  "StoreComposeFile env source content =
     (let hashStr = md5_hex env content
      in and_then (db_stmt env (SelectComposeIdByHash hashStr) (select_compose_id_by_hash hashStr))
           (\<lambda>found.
              case found of
                Inr existingId \<Rightarrow> yield (Inr existingId)
              | Inl err \<Rightarrow>
                  and_then (db_stmt env (InsertComposeFile source content hashStr)
                              (insert_compose_file source content hashStr))
                    (\<lambda>inserted.
                       case inserted of
                         Inl err \<Rightarrow> yield (Inl err)
                       | Inr newId \<Rightarrow> yield (Inr newId))))"

subsection \<open>\<open>WriteComposeToTemp\<close> and the project names of the four operations\<close>

definition temp_dir_name :: "environment \<Rightarrow> int \<Rightarrow> int \<Rightarrow> string" where
  \<comment> \<open>\<open>filepath.Join(os.TempDir(), fmt.Sprintf("k6-test-%d-%d", sessionId, time.Now().Unix()))\<close>\<close>
  "temp_dir_name env sessionId t =
     filepath_Join env (os_TempDir env)
       (''k6-test-'' @ format_d sessionId @ ''-'' @ format_d (Unix t))"

definition WriteComposeToTemp :: "environment \<Rightarrow> string \<Rightarrow> int \<Rightarrow> (go_error + string) prog" where
  "WriteComposeToTemp env content sessionId =
     and_then (now env) (\<lambda>t.
       let tempDir = temp_dir_name env sessionId t
       in and_then (perform (MkdirAll tempDir) (os_MkdirAll env tempDir)) (\<lambda>err.
            case err of
              Some e \<Rightarrow> yield (Inl e)
            | None \<Rightarrow>
                (let composePath = filepath_Join env tempDir ''docker-compose.yml''
                 in and_then (perform (WriteFile composePath content) (os_WriteFile env composePath content))
                      (\<lambda>err. case err of
                                Some e \<Rightarrow> yield (Inl e)
                              | None \<Rightarrow> yield (Inr composePath)))))"

definition discover_project_name :: "int \<Rightarrow> string" where
  \<comment> \<open>discover\_specs.go: \<open>fmt.Sprintf("discover-%d", sessionId)\<close>\<close>
  "discover_project_name sessionId = ''discover-'' @ format_d sessionId"

definition perftest_project_name :: "int \<Rightarrow> string" where
  \<comment> \<open>run\_performance\_test.go: \<open>fmt.Sprintf("perftest-%d", time.Now().Unix())\<close>\<close>
  "perftest_project_name t = ''perftest-'' @ format_d (Unix t)"

definition auto_project_name :: "int \<Rightarrow> string" where
  \<comment> \<open>test\_application.go: \<open>fmt.Sprintf("auto-%d", sessionId)\<close>\<close>
  "auto_project_name sessionId = ''auto-'' @ format_d sessionId"

definition quick_project_name :: "int \<Rightarrow> string" where
  \<comment> \<open>quick\_performance\_test.go: \<open>fmt.Sprintf("quick-%d", sessionId)\<close>\<close>
  "quick_project_name sessionId = ''quick-'' @ format_d sessionId"

section \<open>Results analyzer (analyze\_results.go)\<close>

text \<open>
  A \<open>float64\<close> read from the store is modelled by the real number it denotes: the
  comparisons of the analyzer are exact on these; the integer threshold is converted
  by \<open>float64_of_int\<close> before it is compared. The quotient of the historical
  comparison can leave the finite numbers (division by zero), so its value is a
  \<open>float_val\<close>; rounding is not modelled.
\<close>

datatype float_val = FinVal real | PlusInf | MinusInf | NotANumber

definition float64_of_int :: "int \<Rightarrow> real" where
  \<comment> \<open>the conversion \<open>float64(i)\<close> of an \<open>int\<close> of 64 bits: exact up to \<open>2^53\<close>, beyond that the
      nearest multiple of \<open>2^e\<close> (ties to the even one), \<open>e\<close> the number of bits above 53\<close>
  "float64_of_int i =
     (if \<bar>i\<bar> \<le> 2 ^ 53 then real_of_int i
      else (let n = nat \<bar>i\<bar>;
                e = length (filter (\<lambda>k. 2 ^ (53 + k) \<le> n) [0..<11]);
                unit = 2 ^ e;
                q = n div unit;
                r = n mod unit;
                rounded = (if unit < 2 * r \<or> (unit = 2 * r \<and> odd q) then q + 1 else q)
            in real_of_int (sgn i * int (rounded * unit))))"

definition float_div :: "real \<Rightarrow> real \<Rightarrow> float_val" where
  "float_div x y =
     (if y \<noteq> 0 then FinVal (x / y)
      else if 0 < x then PlusInf
      else if x < 0 then MinusInf
      else NotANumber)"

definition float_times :: "float_val \<Rightarrow> real \<Rightarrow> float_val" where
  \<comment> \<open>multiplication by a positive finite constant\<close>
  "float_times v c = (case v of FinVal x \<Rightarrow> FinVal (x * c) | other \<Rightarrow> other)"

text \<open>
  The report is built by appending formatted lines; each constructor stands for one
  \<open>analysis += fmt.Sprintf(...)\<close> of the handler, and \<open>render_line\<close> gives its text.
\<close>

datatype report_line =
    Title
  | RunIdLine string
  | EndpointHeading string
  | AvgResponseTime real
  | ErrorRatePercent real
  | SlaResponseTimeViolation int
  | SlaErrorRateViolation real
  | HistoricalDelta float_val
  | BlankLine

definition warning_sign :: string where
  \<comment> \<open>U+26A0 U+FE0F in UTF-8\<close>
  "warning_sign = [CHR 0xE2, CHR 0x9A, CHR 0xA0, CHR 0xEF, CHR 0xB8, CHR 0x8F]"

definition fmt_float_val :: "environment \<Rightarrow> nat \<Rightarrow> float_val \<Rightarrow> string" where
  "fmt_float_val env digits v =
     (case v of
        FinVal x \<Rightarrow> fmt_float env digits x
      | PlusInf \<Rightarrow> ''+Inf''
      | MinusInf \<Rightarrow> ''-Inf''
      | NotANumber \<Rightarrow> ''NaN'')"

definition render_line :: "environment \<Rightarrow> report_line \<Rightarrow> string" where
  "render_line env line =
     (case line of
        Title \<Rightarrow> ''# Performance Analysis\<newline>\<newline>''
      | RunIdLine runId \<Rightarrow> ''## Run ID: '' @ runId @ ''\<newline>\<newline>''
      | EndpointHeading endpoint \<Rightarrow> ''### '' @ endpoint @ ''\<newline>''
      | AvgResponseTime avgTime \<Rightarrow>
          ''- Avg Response Time: '' @ fmt_float env 2 avgTime @ '' ms\<newline>''
      | ErrorRatePercent percent \<Rightarrow> ''- Error Rate: '' @ fmt_float env 2 percent @ ''%\<newline>''
      | SlaResponseTimeViolation slaTime \<Rightarrow>
          ''- '' @ warning_sign @ '' SLA VIOLATION: Response time exceeds '' @ format_d slaTime
          @ '' ms\<newline>''
      | SlaErrorRateViolation percent \<Rightarrow>
          ''- '' @ warning_sign @ '' SLA VIOLATION: Error rate exceeds '' @ fmt_float env 1 percent
          @ ''%\<newline>''
      | HistoricalDelta timeDiff \<Rightarrow>
          ''- Response time: '' @ fmt_float_val env 1 timeDiff @ ''% vs historical average\<newline>''
      | BlankLine \<Rightarrow> ''\<newline>'')"

definition render :: "environment \<Rightarrow> report_line list \<Rightarrow> string" where
  "render env analysis = concat (map (render_line env) analysis)"


subsection \<open>The three queries of the analyzer\<close>

definition select_run_metrics ::
  "environment \<Rightarrow> string \<Rightarrow> world \<Rightarrow> world \<times> (go_error + (string \<times> real \<times> real) list)" where
  \<comment> \<open>\<open>SELECT endpoint, avg_response_time, error_rate FROM metrics WHERE run_id = ?\<close>\<close>
  "select_run_metrics env runId w =
     (w, Inr (map (\<lambda>m. (m_endpoint m, m_avg_response_time m, m_error_rate m))
                (filter (\<lambda>m. sql_text_eq_int env runId (m_run_id m)) (db_metrics w))))"

definition select_endpoint_sla :: "string \<Rightarrow> world \<Rightarrow> world \<times> (go_error + int \<times> real)" where
  \<comment> \<open>\<open>QueryRow("SELECT sla_response_time, sla_error_rate FROM endpoints WHERE path = ?",
      endpoint).Scan(&slaTime, &slaError)\<close>: the first matching row; \<open>Scan\<close> fails on a NULL\<close>
  "select_endpoint_sla endpoint w =
     (w, case find (\<lambda>row. ep_path row = endpoint) (db_endpoints w) of
           None \<Rightarrow> Inl ErrNoRows
         | Some row \<Rightarrow>
             (case ep_sla_response_time row of
                None \<Rightarrow> Inl ''sql: Scan error on column index 0: converting NULL to int is unsupported''
              | Some slaTime \<Rightarrow>
                  (case ep_sla_error_rate row of
                     None \<Rightarrow> Inl ''sql: Scan error on column index 1: converting NULL to float64 is unsupported''
                   | Some slaError \<Rightarrow> Inr (slaTime, slaError))))"

definition average :: "real list \<Rightarrow> real" where
  "average xs = sum_list xs / real (length xs)"

definition other_runs :: "environment \<Rightarrow> string \<Rightarrow> string \<Rightarrow> world \<Rightarrow> metric_row list" where
  \<comment> \<open>\<open>FROM metrics WHERE endpoint = ? AND run_id != ?\<close>\<close>
  "other_runs env endpoint runId w =
     filter (\<lambda>m. m_endpoint m = endpoint \<and> \<not> sql_text_eq_int env runId (m_run_id m)) (db_metrics w)"

definition select_historical_average ::
  "environment \<Rightarrow> string \<Rightarrow> string \<Rightarrow> world \<Rightarrow> world \<times> (go_error + real \<times> real)" where
  \<comment> \<open>\<open>SELECT AVG(avg_response_time), AVG(error_rate)\<close> over the other runs: one row, NULL
      when there is none, and \<open>Scan\<close> into a \<open>float64\<close> fails on NULL\<close>
  "select_historical_average env endpoint runId w =
     (w, if other_runs env endpoint runId w = []
         then Inl ''sql: Scan error on column index 0: converting NULL to float64 is unsupported''
         else Inr (average (map m_avg_response_time (other_runs env endpoint runId w)),
                   average (map m_error_rate (other_runs env endpoint runId w))))"

subsection \<open>\<open>AnalyzeResultsTool.Handle\<close>\<close>

record analyze_request =
  an_runId :: "string option"
  an_compareHistory :: "string option"

definition analyze_row ::
  "environment \<Rightarrow> string \<Rightarrow> bool \<Rightarrow> string \<times> real \<times> real \<Rightarrow> report_line list
     \<Rightarrow> report_line list prog" where
  \<comment> \<open>the body of \<open>for rows.Next()\<close>\<close>
  "analyze_row env runId compareHistory row analysis =
     (case row of (endpoint, avgTime, errorRate) \<Rightarrow>
        let analysis = analysis @ [EndpointHeading endpoint];
            analysis = analysis @ [AvgResponseTime avgTime];
            analysis = analysis @ [ErrorRatePercent (errorRate * 100)]
        in and_then (db_stmt env (SelectEndpointSla endpoint) (select_endpoint_sla endpoint)) (\<lambda>sla.
             let analysis =
                   (case sla of
                      Inl err \<Rightarrow> analysis
                    | Inr (slaTime, slaError) \<Rightarrow>
                        (let analysis = (if avgTime > float64_of_int slaTime
                                         then analysis @ [SlaResponseTimeViolation slaTime]
                                         else analysis);
                             analysis = (if errorRate > slaError
                                         then analysis @ [SlaErrorRateViolation (slaError * 100)]
                                         else analysis)
                         in analysis))
             in and_then
                  (if compareHistory then
                     and_then (db_stmt env (SelectHistoricalAverage endpoint runId)
                                 (select_historical_average env endpoint runId)) (\<lambda>hist.
                       case hist of
                         Inl err \<Rightarrow> yield analysis
                       | Inr (histAvgTime, histErrorRate) \<Rightarrow>
                           (let timeDiff = float_times (float_div (avgTime - histAvgTime) histAvgTime) 100
                            in yield (analysis @ [HistoricalDelta timeDiff])))
                   else yield analysis)
                  (\<lambda>analysis. yield (analysis @ [BlankLine]))))"

fun analyze_rows ::
  "environment \<Rightarrow> string \<Rightarrow> bool \<Rightarrow> (string \<times> real \<times> real) list \<Rightarrow> report_line list
     \<Rightarrow> report_line list prog" where
  "analyze_rows env runId compareHistory [] analysis = yield analysis"
| "analyze_rows env runId compareHistory (row # rows) analysis =
     and_then (analyze_row env runId compareHistory row analysis)
       (analyze_rows env runId compareHistory rows)"

definition AnalyzeResultsTool_Handle :: "environment \<Rightarrow> analyze_request \<Rightarrow> tool_result prog" where
  "AnalyzeResultsTool_Handle env request =
     (case an_runId request of
        None \<Rightarrow> return_result (ToolResultError ''Missing required runId'')
      | Some runId \<Rightarrow>
          (let compareHistory = (GetString (an_compareHistory request) ''false'' = ''true'')
           in and_then (db_stmt env (SelectRunMetrics runId) (select_run_metrics env runId)) (\<lambda>rows.
                case rows of
                  Inl err \<Rightarrow> return_result (ToolResultError (''Failed to query metrics: '' @ err))
                | Inr rows \<Rightarrow>
                    (let analysis = [Title];
                         analysis = analysis @ [RunIdLine runId]
                     in and_then (analyze_rows env runId compareHistory rows analysis) (\<lambda>analysis.
                          return_result (ToolResultText (render env analysis)))))))"

section \<open>API discovery (discover\_specs.go)\<close>

record discover_request =
  ds_specPaths :: "string option"
  ds_autoDiscover :: "string option"

definition commonPaths :: "string list" where
  "commonPaths =
     [''/swagger.json'', ''/openapi.json'', ''/api-docs'', ''/v2/api-docs'', ''/v3/api-docs'',
      ''/api/swagger.json'', ''/api/openapi.json'', ''/api/v3/openapi.json'']"

definition select_compose_content :: "int \<Rightarrow> world \<Rightarrow> world \<times> (go_error + string)" where
  \<comment> \<open>\<open>QueryRow("SELECT content FROM compose_files WHERE id = ?", composeFileId).Scan(&content)\<close>\<close>
  "select_compose_content composeFileId w =
     (w, case find (\<lambda>row. cf_id row = composeFileId) (db_compose_files w) of
           None \<Rightarrow> Inl ErrNoRows
         | Some row \<Rightarrow> Inr (cf_content row))"

definition select_services ::
  "int \<Rightarrow> world \<Rightarrow> world \<times> (go_error + (int \<times> string \<times> string) list)" where
  \<comment> \<open>\<open>Query("SELECT id, name, ports FROM services WHERE session_id = ?", sessionId)\<close>, in table order\<close>
  "select_services sessionId w =
     (w, Inr (map (\<lambda>row. (sv_id row, sv_name row, sv_ports row))
                (filter (\<lambda>row. sv_session_id row = sessionId) (db_services w))))"

definition insert_api_spec :: "int \<Rightarrow> string \<Rightarrow> world \<Rightarrow> world \<times> (go_error + int)" where
  \<comment> \<open>\<open>Exec("INSERT INTO api_specs (session_id, spec_url) VALUES (?, ?)", sessionId, spec)\<close>\<close>
  "insert_api_spec sessionId spec w =
     (let newId = next_id (map sp_id (db_api_specs w))
      in (w\<lparr>db_api_specs := db_api_specs w @
               [\<lparr>sp_id = newId, sp_session_id = sessionId, sp_spec_url = spec\<rparr>]\<rparr>,
          Inr newId))"

fun probe_paths :: "environment \<Rightarrow> string \<Rightarrow> string list \<Rightarrow> string list \<Rightarrow> string list prog" where
  \<comment> \<open>\<open>for _, path := range commonPaths\<close>: a url is appended iff the GET meets no error and
      answers 200\<close>
  "probe_paths env baseURL [] discovered = yield discovered"
| "probe_paths env baseURL (path # paths) discovered =
     (let url = baseURL @ path
      in and_then (perform (HttpGet url) (http_Get env url)) (\<lambda>got.
           case got of
             Inl err \<Rightarrow> probe_paths env baseURL paths discovered
           | Inr resp \<Rightarrow>
               if StatusCode resp = 200
               then probe_paths env baseURL paths (discovered @ [url])
               else probe_paths env baseURL paths discovered))"

fun probe_services ::
  "environment \<Rightarrow> (int \<times> string \<times> string) list \<Rightarrow> string list \<Rightarrow> string list prog" where
  \<comment> \<open>\<open>for rows.Next()\<close>: the first port mapping of the service, its host segment, the probes\<close>
  "probe_services env [] discovered = yield discovered"
| "probe_services env ((svcId, name, ports) # rows) discovered =
     (case Split ports CHR '','' of
        [] \<Rightarrow> probe_services env rows discovered
      | first # others \<Rightarrow>
          if first \<noteq> ''''
          then (case Split first CHR '':'' of
                  [] \<Rightarrow> go_panic ''index out of range [0] with length 0''
                | port # segments \<Rightarrow>
                    (let baseURL = ''http://localhost:'' @ port
                     in and_then (probe_paths env baseURL commonPaths discovered)
                          (probe_services env rows)))
          else probe_services env rows discovered)"

definition auto_discover :: "environment \<Rightarrow> int \<Rightarrow> string list \<Rightarrow> string list prog" where
  \<comment> \<open>the block \<open>if autoDiscover { ... }\<close>\<close>
  "auto_discover env sessionId discovered =
     and_then (db_stmt env (SelectServices sessionId) (select_services sessionId)) (\<lambda>rows.
       case rows of
         Inl err \<Rightarrow> return_result (ToolResultError (''Failed to query services: '' @ err))
       | Inr rows \<Rightarrow> probe_services env rows discovered)"

fun store_specs :: "environment \<Rightarrow> int \<Rightarrow> int \<Rightarrow> string list \<Rightarrow> string \<Rightarrow> string prog" where
  \<comment> \<open>\<open>for i, spec := range discovered\<close>: one line of the result and one row per spec; a
      failed insert is only logged\<close>
  "store_specs env sessionId i [] result = yield result"
| "store_specs env sessionId i (spec # specs) result =
     (let result = result @ format_d (i + 1) @ ''. '' @ spec @ ''\<newline>''
      in and_then (db_stmt env (InsertApiSpec sessionId spec) (insert_api_spec sessionId spec))
           (\<lambda>inserted. store_specs env sessionId (i + 1) specs result))"

definition DiscoverSpecsTool_Handle :: "environment \<Rightarrow> discover_request \<Rightarrow> tool_result prog" where
  "DiscoverSpecsTool_Handle env request =
     (let specPaths = GetString (ds_specPaths request) '''';
          autoDiscover = (GetString (ds_autoDiscover request) ''true'' = ''true'')
      in and_then (db_stmt env SelectLatestSession (\<lambda>w. (w, latest_session env (db_test_sessions w))))
      (\<lambda>session. case session of
         Inl err \<Rightarrow>
           return_result (ToolResultError ''No environment configured. Run setup_test_environment first.'')
       | Inr (sessionId, composeFileId) \<Rightarrow>
      and_then (db_stmt env (SelectComposeContent composeFileId) (select_compose_content composeFileId))
      (\<lambda>content. case content of
         Inl err \<Rightarrow> return_result (ToolResultError (''Failed to get compose file: '' @ err))
       | Inr content \<Rightarrow>
      and_then (WriteComposeToTemp env content sessionId)
      (\<lambda>written. case written of
         Inl err \<Rightarrow> return_result (ToolResultError (''Failed to write compose file: '' @ err))
       | Inr composePath \<Rightarrow>
      go_defer (os_RemoveAll (filepath_Dir env composePath))
      (let projectName = discover_project_name sessionId
       in and_then (compose_up env composePath projectName)
      (\<lambda>(output, err). case err of
         Some e \<Rightarrow>
           return_result (ToolResultError (''Failed to start containers: '' @ e @ ''\<newline>'' @ output))
       | None \<Rightarrow>
      go_defer (compose_down env composePath projectName)
      (and_then (perform (Sleep 10) ())
      (\<lambda>slept.
       let discovered = [];
           discovered = (if specPaths \<noteq> ''''
                         then discovered @ map (strings_TrimSpace env) (Split specPaths CHR '','')
                         else discovered)
       in and_then (if autoDiscover then auto_discover env sessionId discovered else yield discovered)
      (\<lambda>discovered.
       let result = ''Discovered '' @ format_d (int (length discovered)) @ '' API specifications:\<newline>''
       in and_then (store_specs env sessionId 0 discovered result)
      (\<lambda>result.
       yield (ToolResultText (result @ ''\<newline>Containers have been stopped.''))))))))))))"









section \<open>Test execution (run\_performance\_test.go)\<close>

record run_request =
  rp_testId :: "string option"
  rp_vus :: "int option"
  rp_duration :: "string option"

definition nil_dereference :: string where
  "nil_dereference = ''runtime error: invalid memory address or nil pointer dereference''"

definition select_test :: "environment \<Rightarrow> string \<Rightarrow> world \<Rightarrow> world \<times> (go_error + string \<times> int)" where
  \<comment> \<open>\<open>QueryRow("SELECT script, session_id FROM tests WHERE id = ?", testId).Scan(&script, &sessionId)\<close>\<close>
  "select_test env testId w =
     (w, case find (\<lambda>row. sql_text_eq_int env testId (t_id row)) (db_tests w) of
           None \<Rightarrow> Inl ErrNoRows
         | Some row \<Rightarrow> Inr (t_script row, t_session_id row))"

definition select_session_compose :: "int \<Rightarrow> world \<Rightarrow> world \<times> (go_error + string)" where
  \<comment> \<open>\<open>SELECT cf.content FROM compose_files cf JOIN test_sessions ts ON ts.compose_file_id = cf.id
      WHERE ts.id = ?\<close>\<close>
  "select_session_compose sessionId w =
     (w, case find (\<lambda>row. ts_id row = sessionId) (db_test_sessions w) of
           None \<Rightarrow> Inl ErrNoRows
         | Some session \<Rightarrow>
             (case find (\<lambda>row. cf_id row = ts_compose_file_id session) (db_compose_files w) of
                None \<Rightarrow> Inl ErrNoRows
              | Some row \<Rightarrow> Inr (cf_content row)))"

definition insert_test_run ::
  "string \<Rightarrow> int \<Rightarrow> string \<Rightarrow> world \<Rightarrow> world \<times> (go_error + int)" where
  \<comment> \<open>\<open>Exec("INSERT INTO test_runs (test_id, vus, duration) VALUES (?, ?, ?)", ...)\<close> and
      \<open>LastInsertId()\<close>: \<open>completed_at\<close> and \<open>results\<close> start as NULL\<close>
  "insert_test_run testId vus duration w =
     (let newId = next_id (map tr_id (db_test_runs w))
      in (w\<lparr>db_test_runs := db_test_runs w @
               [\<lparr>tr_id = newId, tr_test_id = testId, tr_completed_at = None, tr_vus = vus,
                 tr_duration = duration, tr_results = None\<rparr>]\<rparr>,
          Inr newId))"

definition update_test_run_results ::
  "environment \<Rightarrow> int \<Rightarrow> string \<Rightarrow> world \<Rightarrow> world \<times> (go_error + unit)" where
  \<comment> \<open>\<open>Exec("UPDATE test_runs SET completed_at = CURRENT_TIMESTAMP, results = ? WHERE id = ?",
      string(output), runId)\<close>\<close>
  "update_test_run_results env runId output w =
     (w\<lparr>db_test_runs :=
          map (\<lambda>row. if tr_id row = runId
                      then row\<lparr>tr_completed_at := Some (Unix (time_Now env (length (trace w)))),
                               tr_results := Some output\<rparr>
                      else row)
            (db_test_runs w)\<rparr>,
      Inr ())"

definition ParseAndStoreMetrics :: "environment \<Rightarrow> int \<Rightarrow> string \<Rightarrow> unit prog" where
  \<comment> \<open>shared.go: one fixed row for the run; the result of \<open>Exec\<close> is dropped\<close>
  "ParseAndStoreMetrics env runId outputFile =
     and_then
       (db_stmt env (InsertMetrics runId)
          (\<lambda>w. (w\<lparr>db_metrics := db_metrics w @
                     [\<lparr>m_run_id = runId, m_endpoint = ''/api/endpoint'',
                       m_avg_response_time = 301 / 2, m_min_response_time = 50,
                       m_max_response_time = 500, m_error_rate = 2 / 100,
                       m_requests_per_second = 171 / 2\<rparr>]\<rparr>,
                 Inr ())))
       (\<lambda>dropped. yield ())"

definition RunPerformanceTestTool_Handle :: "environment \<Rightarrow> run_request \<Rightarrow> tool_result prog" where
  "RunPerformanceTestTool_Handle env request =
     (case rp_testId request of
        None \<Rightarrow> return_result (ToolResultError ''Missing required testId'')
      | Some testId \<Rightarrow>
      (let vus = (case rp_vus request of None \<Rightarrow> 10 | Some v \<Rightarrow> v);
           duration = GetString (rp_duration request) ''30s''
       in and_then (db_stmt env (SelectTest testId) (select_test env testId))
      (\<lambda>test. case test of
         Inl err \<Rightarrow> return_result (ToolResultError (''Test not found: '' @ err))
       | Inr (script, sessionId) \<Rightarrow>
      and_then (db_stmt env (SelectSessionCompose sessionId) (select_session_compose sessionId))
      (\<lambda>content. case content of
         Inl err \<Rightarrow> return_result (ToolResultError (''Compose file not found: '' @ err))
       | Inr content \<Rightarrow>
      and_then (WriteComposeToTemp env content sessionId)
      (\<lambda>written. case written of
         Inl err \<Rightarrow> return_result (ToolResultError (''Failed to write compose file: '' @ err))
       | Inr composePath \<Rightarrow>
      go_defer (os_RemoveAll (filepath_Dir env composePath))
      (and_then (now env)
      (\<lambda>t.
       let projectName = perftest_project_name t
       in and_then (compose_up env composePath projectName)
      (\<lambda>(containerOutput, err). case err of
         Some e \<Rightarrow>
           return_result
             (ToolResultError (''Failed to start containers: '' @ e @ ''\<newline>'' @ containerOutput))
       | None \<Rightarrow>
      go_defer (compose_down env composePath projectName)
      (and_then (perform (Sleep 10) ())
      (\<lambda>slept.
      and_then (perform (CreateTemp ''k6-test-*.js'') (os_CreateTemp env ''k6-test-*.js''))
      (\<lambda>created. case created of
         Inl err \<Rightarrow> return_result (ToolResultError (''Failed to create temp file: '' @ err))
       | Inr tmpFile \<Rightarrow>
      go_defer (os_Remove tmpFile)
      (and_then (perform (WriteString tmpFile script) ())
      (\<lambda>written.
      and_then (db_stmt env (InsertTestRun testId vus duration) (insert_test_run testId vus duration))
      (\<lambda>inserted. case inserted of
         Inl err \<Rightarrow> go_panic nil_dereference
       | Inr runId \<Rightarrow>
      (let outputFile = ''/tmp/k6-results-'' @ format_d runId @ ''.json'';
           args = [''run'', ''--vus'', format_d vus, ''--duration'', duration,
                   ''--out'', ''json='' @ outputFile, tmpFile]
       in and_then (perform (K6Run args) (k6_run env args))
      (\<lambda>(output, err). case err of
         Some e \<Rightarrow>
           return_result (ToolResultError (''Test execution failed: '' @ e @ ''\<newline>'' @ output))
       | None \<Rightarrow>
      and_then (db_stmt env (UpdateTestRunResults runId output) (update_test_run_results env runId output))
      (\<lambda>updated.
      and_then (ParseAndStoreMetrics env runId outputFile)
      (\<lambda>stored.
       yield (ToolResultText
         (''Test completed. Run ID: '' @ format_d runId
          @ ''\<newline>\<newline>Containers have been stopped and removed.\<newline>\<newline>'' @ output))
      ))))))))))))))))))"

definition is_k6_run :: "event \<Rightarrow> bool" where
  "is_k6_run e = (case e of K6Run args \<Rightarrow> True | other \<Rightarrow> False)"

definition is_run_update :: "event \<Rightarrow> bool" where
  "is_run_update e = (case e of Db (UpdateTestRunResults runId output) \<Rightarrow> True | other \<Rightarrow> False)"

section \<open>The quick flow (quick\_performance\_test.go)\<close>

record quick_request =
  qk_composeSource :: "string option"
  qk_vus :: "int option"
  qk_duration :: "string option"

definition insert_session :: "int \<Rightarrow> string \<Rightarrow> string \<Rightarrow> world \<Rightarrow> world \<times> (go_error + int)" where
  \<comment> \<open>\<open>Exec("INSERT INTO test_sessions (compose_file_id, session_name, status) VALUES (?, ?, ?)", ...)\<close>
      and \<open>LastInsertId()\<close>\<close>
  "insert_session composeFileId sessionName status w =
     (let newId = next_id (map ts_id (db_test_sessions w))
      in (w\<lparr>db_test_sessions := db_test_sessions w @
               [\<lparr>ts_id = newId, ts_compose_file_id = composeFileId, ts_session_name = sessionName,
                 ts_completed_at = None, ts_status = status\<rparr>]\<rparr>,
          Inr newId))"

definition quick_test_script :: string where
  "quick_test_script =
     ''import http from 'k6/http';\<newline>'' @
     ''import { check } from 'k6';\<newline>'' @
     ''\<newline>'' @
     ''export default function () {\<newline>'' @
     ''  const res = http.get('http://localhost:8082/');\<newline>'' @
     ''  check(res, { 'status ok': (r) => r.status < 400 });\<newline>'' @
     ''}''"

definition QuickPerformanceTestTool_Handle :: "environment \<Rightarrow> quick_request \<Rightarrow> tool_result prog" where
  "QuickPerformanceTestTool_Handle env request =
     (case qk_composeSource request of
        None \<Rightarrow> return_result (ToolResultError ''Missing required composeSource'')
      | Some composeSource \<Rightarrow>
      (let vus = (case qk_vus request of None \<Rightarrow> 50 | Some v \<Rightarrow> v);
           duration = GetString (qk_duration request) ''2m'';
           report = ''# Quick Performance Test\<newline>\<newline>'';
           report = report @ ''- Target: '' @ composeSource @ ''\<newline>'';
           report = report @ ''- VUs: '' @ format_d vus @ ''\<newline>'';
           report = report @ ''- Duration: '' @ duration @ ''\<newline>\<newline>''
       in and_then (FetchComposeContent env composeSource)
      (\<lambda>fetched. case fetched of
         Inl err \<Rightarrow> return_result (ToolResultError (''Failed to fetch compose: '' @ err))
       | Inr content \<Rightarrow>
      and_then (StoreComposeFile env composeSource content)
      (\<lambda>stored. case stored of
         Inl err \<Rightarrow> return_result (ToolResultError (''Failed to store compose file: '' @ err))
       | Inr composeFileId \<Rightarrow>
      and_then (now env)
      (\<lambda>t.
       let sessionName = ''quick-'' @ format_d (Unix t)
       in and_then (db_stmt env (InsertSession composeFileId sessionName ''running'')
                     (insert_session composeFileId sessionName ''running''))
      (\<lambda>inserted. case inserted of
         Inl err \<Rightarrow> return_result (ToolResultError (''Failed to create session: '' @ err))
       | Inr sessionId \<Rightarrow>
      and_then (WriteComposeToTemp env content sessionId)
      (\<lambda>written. case written of
         Inl err \<Rightarrow> return_result (ToolResultError (''Failed to write compose file: '' @ err))
       | Inr composePath \<Rightarrow>
      go_defer (os_RemoveAll (filepath_Dir env composePath))
      (let projectName = quick_project_name sessionId
       in and_then (compose_up env composePath projectName)
      (\<lambda>(containerOutput, err). case err of
         Some e \<Rightarrow>
           return_result
             (ToolResultError (''Failed to start containers: '' @ e @ ''\<newline>'' @ containerOutput))
       | None \<Rightarrow>
      go_defer (compose_down env composePath projectName)
      (and_then (perform (Sleep 10) ())
      (\<lambda>slept.
      and_then (perform (CreateTemp ''k6-quick-*.js'') (os_CreateTemp env ''k6-quick-*.js''))
      (\<lambda>created. case created of
         Inl err \<Rightarrow> return_result (ToolResultError (''Failed to create temp file: '' @ err))
       | Inr tmpFile \<Rightarrow>
      and_then (perform (WriteString tmpFile quick_test_script) ())
      (\<lambda>written.
      go_defer (os_Remove tmpFile)
      (let args = [''run'', ''--vus'', format_d vus, ''--duration'', duration, tmpFile]
       in and_then (perform (K6Run args) (k6_run env args))
      (\<lambda>(output, err). case err of
         Some e \<Rightarrow> return_result (ToolResultError (''k6 test failed: '' @ e @ ''\<newline>'' @ output))
       | None \<Rightarrow>
      (let report = report @ ''## Results\<newline>```\<newline>'' @ output @ ''\<newline>```''
       in yield (ToolResultText report))
      )))))))))))))))"

section \<open>The automated flow (test\_application.go)\<close>

record auto_request =
  ta_composeSource :: "string option"
  ta_testType :: "string option"
  ta_endpoints :: "string option"

definition GenerateJSArray :: "string list \<Rightarrow> string" where
  "GenerateJSArray items =
     ''['' @ Join (map (\<lambda>item. [CHR 0x27] @ item @ [CHR 0x27]) items) '', '' @ '']''"

definition insert_service ::
  "int \<Rightarrow> string \<Rightarrow> string \<Rightarrow> string \<Rightarrow> world \<Rightarrow> world \<times> (go_error + int)" where
  \<comment> \<open>\<open>Exec("INSERT INTO services (session_id, name, image, ports) VALUES (?, ?, ?, ?)", ...)\<close>\<close>
  "insert_service sessionId name img ports w =
     (let newId = next_id (map sv_id (db_services w))
      in (w\<lparr>db_services := db_services w @
               [\<lparr>sv_id = newId, sv_session_id = sessionId, sv_name = name, sv_image = img,
                 sv_ports = ports\<rparr>]\<rparr>,
          Inr newId))"

definition insert_test ::
  "int \<Rightarrow> string \<Rightarrow> string \<Rightarrow> string \<Rightarrow> world \<Rightarrow> world \<times> (go_error + int)" where
  \<comment> \<open>\<open>Exec("INSERT INTO tests (session_id, name, type, script) VALUES (?, ?, ?, ?)", ...)\<close>\<close>
  "insert_test sessionId name kind script w =
     (let newId = next_id (map t_id (db_tests w))
      in (w\<lparr>db_tests := db_tests w @
               [\<lparr>t_id = newId, t_session_id = sessionId, t_name = name, t_type = kind,
                 t_script = script\<rparr>]\<rparr>,
          Inr newId))"

definition update_session_completed :: "environment \<Rightarrow> int \<Rightarrow> world \<Rightarrow> world \<times> (go_error + unit)" where
  \<comment> \<open>\<open>Exec("UPDATE test_sessions SET completed_at = CURRENT_TIMESTAMP, status = ? WHERE id = ?",
      "completed", sessionId)\<close>\<close>
  "update_session_completed env sessionId w =
     (w\<lparr>db_test_sessions :=
          map (\<lambda>row. if ts_id row = sessionId
                      then row\<lparr>ts_completed_at := Some (Unix (time_Now env (length (trace w)))),
                               ts_status := ''completed''\<rparr>
                      else row)
            (db_test_sessions w)\<rparr>,
      Inr ())"

definition update_test_run_completed :: "environment \<Rightarrow> int \<Rightarrow> world \<Rightarrow> world \<times> (go_error + unit)" where
  \<comment> \<open>\<open>Exec("UPDATE test_runs SET completed_at = CURRENT_TIMESTAMP WHERE id = ?", runId)\<close>\<close>
  "update_test_run_completed env runId w =
     (w\<lparr>db_test_runs :=
          map (\<lambda>row. if tr_id row = runId
                      then row\<lparr>tr_completed_at := Some (Unix (time_Now env (length (trace w))))\<rparr>
                      else row)
            (db_test_runs w)\<rparr>,
      Inr ())"

definition range_services ::
  "environment \<Rightarrow> (string \<times> compose_service) list \<Rightarrow> (string \<times> compose_service) list prog" where
  \<comment> \<open>\<open>range compose.Services\<close>: the iteration order of a Go map is chosen by the runtime\<close>
  "range_services env servicesMap w = (w, Next (map_range env (length (trace w)) servicesMap))"

fun store_services :: "environment \<Rightarrow> int \<Rightarrow> (string \<times> compose_service) list \<Rightarrow> unit prog" where
  \<comment> \<open>\<open>for name, service := range compose.Services\<close>: the result of \<open>Exec\<close> is dropped\<close>
  "store_services env sessionId [] = yield ()"
| "store_services env sessionId ((name, service) # rest) =
     (let ports = Join (Ports service) '',''
      in and_then (db_stmt env (InsertService sessionId name (Image service) ports)
                     (insert_service sessionId name (Image service) ports))
           (\<lambda>dropped. store_services env sessionId rest))"

definition auto_common_paths :: "string list" where
  "auto_common_paths = [''/openapi.json'', ''/swagger.json'', ''/api-docs'', ''/api/v3/openapi.json'']"

fun auto_probe_paths ::
  "environment \<Rightarrow> int \<Rightarrow> string \<Rightarrow> string list \<Rightarrow> string \<Rightarrow> string prog" where
  \<comment> \<open>\<open>for _, path := range commonPaths\<close> with \<open>break\<close> at the first spec found\<close>
  "auto_probe_paths env sessionId baseURL [] report = yield report"
| "auto_probe_paths env sessionId baseURL (path # paths) report =
     (let url = baseURL @ path
      in and_then (perform (HttpGet url) (http_Get env url)) (\<lambda>got.
           case got of
             Inl err \<Rightarrow> auto_probe_paths env sessionId baseURL paths report
           | Inr resp \<Rightarrow>
               if StatusCode resp = 200
               then and_then (db_stmt env (InsertApiSpec sessionId url) (insert_api_spec sessionId url))
                      (\<lambda>dropped. yield (report @ ''- Found API spec: '' @ url @ ''\<newline>''))
               else auto_probe_paths env sessionId baseURL paths report))"

fun auto_probe_services ::
  "environment \<Rightarrow> int \<Rightarrow> (int \<times> string \<times> string) list \<Rightarrow> string \<Rightarrow> string prog" where
  "auto_probe_services env sessionId [] report = yield report"
| "auto_probe_services env sessionId ((svcId, name, ports) # rows) report =
     (case Split ports CHR '','' of
        [] \<Rightarrow> auto_probe_services env sessionId rows report
      | first # others \<Rightarrow>
          if first \<noteq> ''''
          then (case Split first CHR '':'' of
                  [] \<Rightarrow> go_panic ''index out of range [0] with length 0''
                | port # segments \<Rightarrow>
                    (let baseURL = ''http://localhost:'' @ port
                     in and_then (auto_probe_paths env sessionId baseURL auto_common_paths report)
                          (auto_probe_services env sessionId rows)))
          else auto_probe_services env sessionId rows report)"

fun first_service_port :: "(string \<times> compose_service) list \<Rightarrow> string outcome" where
  \<comment> \<open>\<open>for _, service := range compose.Services { if len(service.Ports) > 0 { ...; break } }\<close>\<close>
  "first_service_port [] = Return ''''"
| "first_service_port ((name, service) # rest) =
     (case Ports service of
        [] \<Rightarrow> first_service_port rest
      | mapping # mappings \<Rightarrow>
          (case Split mapping CHR '':'' of
             [] \<Rightarrow> Panic ''index out of range [0] with length 0''
           | port # segments \<Rightarrow> Return port))"

definition auto_test_script :: "int \<Rightarrow> string \<Rightarrow> string \<Rightarrow> string \<Rightarrow> string" where
  "auto_test_script testVus testDuration testPort endpointsArray =
     ''import http from 'k6/http';\<newline>'' @
     ''import { check, group } from 'k6';\<newline>'' @
     ''\<newline>'' @
     ''export const options = {\<newline>'' @
     ''  vus: '' @ format_d testVus @ '',\<newline>'' @
     ''  duration: '' @ [CHR 0x27] @ testDuration @ [CHR 0x27] @ '',\<newline>'' @
     ''  thresholds: {\<newline>'' @
     ''    http_req_duration: ['p(95)<500'],\<newline>'' @
     ''    http_req_failed: ['rate<0.1'],\<newline>'' @
     ''  },\<newline>'' @
     ''};\<newline>'' @
     ''\<newline>'' @
     ''const BASE_URL = 'http://localhost:'' @ testPort @ [CHR 0x27] @ '';\<newline>'' @
     ''const endpoints = '' @ endpointsArray @ '';\<newline>'' @
     ''\<newline>'' @
     ''export default function () {\<newline>'' @
     ''  endpoints.forEach(endpoint => {\<newline>'' @
     ''    group('Testing ' + endpoint, () => {\<newline>'' @
     ''      const res = http.get(BASE_URL + endpoint);\<newline>'' @
     ''      check(res, {\<newline>'' @
     ''        'status is 200': (r) => r.status === 200,\<newline>'' @
     ''        'response time < 500ms': (r) => r.timings.duration < 500,\<newline>'' @
     ''      });\<newline>'' @
     ''    });\<newline>'' @
     ''  });\<newline>'' @
     ''}''"

definition auto_cleanup :: "environment \<Rightarrow> string \<Rightarrow> string \<Rightarrow> int \<Rightarrow> world \<Rightarrow> world" where
  \<comment> \<open>the deferred function: \<open>stopCmd.Run()\<close>, then the session is marked completed\<close>
  "auto_cleanup env composePath projectName sessionId w =
     fst (db_stmt env (UpdateSessionCompleted sessionId) (update_session_completed env sessionId)
            (compose_down env composePath projectName w))"

definition auto_run_test ::
  "environment \<Rightarrow> int \<Rightarrow> string \<Rightarrow> string \<Rightarrow> (string \<times> compose_service) list \<Rightarrow> string
     \<Rightarrow> tool_result prog" where
  \<comment> \<open>"Step 3: Generate and run tests", to the end of the handler\<close>
  "auto_run_test env sessionId testType endpoints servicesMap report =
     (let report = report @ ''\<newline>## Step 3: Running '' @ testType @ '' tests\<newline>'';
          report = (if endpoints \<noteq> ''''
                    then report @ ''- Testing specific endpoints: '' @ endpoints @ ''\<newline>''
                    else report);
          testVus = (if testType = ''quick'' then 10 else if testType = ''thorough'' then 100 else 50);
          testDuration = (if testType = ''quick'' then ''30s''
                          else if testType = ''thorough'' then ''5m'' else ''2m'')
      in and_then (range_services env servicesMap)
      (\<lambda>ranged. case first_service_port ranged of
         Panic msg \<Rightarrow> go_panic msg
       | Return testPort \<Rightarrow>
      (let testPort = (if testPort = '''' then ''8080'' else testPort);
           testEndpoints = (if endpoints \<noteq> ''''
                            then map (strings_TrimSpace env) (Split endpoints CHR '','')
                            else [''/'', ''/api/health'', ''/api/v3/pet'']);
           testScript = auto_test_script testVus testDuration testPort (GenerateJSArray testEndpoints)
       in and_then (db_stmt env (InsertTest sessionId ''auto-load-test'' ''load'' testScript)
                     (insert_test sessionId ''auto-load-test'' ''load'' testScript))
      (\<lambda>testResult. case testResult of
         Inl err \<Rightarrow> go_panic nil_dereference
       | Inr testId \<Rightarrow>
      and_then (perform (CreateTemp ''k6-auto-test-*.js'') (os_CreateTemp env ''k6-auto-test-*.js''))
      (\<lambda>created. case created of
         Inl err \<Rightarrow> go_panic nil_dereference
       | Inr tmpFile \<Rightarrow>
      and_then (perform (WriteString tmpFile testScript) ())
      (\<lambda>written.
      go_defer (os_Remove tmpFile)
      (and_then (db_stmt env (InsertTestRun (format_d testId) testVus testDuration)
                   (insert_test_run (format_d testId) testVus testDuration))
      (\<lambda>runResult. case runResult of
         Inl err \<Rightarrow> go_panic nil_dereference
       | Inr runId \<Rightarrow>
      (let outputFile = ''/tmp/k6-auto-results-'' @ format_d runId @ ''.json'';
           args = [''run'', ''--vus'', format_d testVus, ''--duration'', testDuration,
                   ''--out'', ''json='' @ outputFile, tmpFile]
       in and_then (perform (K6Run args) (k6_run env args))
      (\<lambda>(k6Output, ignored).
       let report = report @ ''- Test completed with '' @ format_d testVus @ '' VUs for ''
                      @ testDuration @ ''\<newline>'';
           report = report @ ''\<newline>## Results Summary\<newline>'';
           report = report @ ''```\<newline>'' @ k6Output @ ''\<newline>```\<newline>''
       in and_then (db_stmt env (UpdateTestRunCompleted runId) (update_test_run_completed env runId))
      (\<lambda>updated. yield (ToolResultText report))
      ))))))))))"

definition auto_discover_and_test ::
  "environment \<Rightarrow> int \<Rightarrow> string \<Rightarrow> string \<Rightarrow> (string \<times> compose_service) list \<Rightarrow> string
     \<Rightarrow> tool_result prog" where
  \<comment> \<open>from \<open>time.Sleep(15 * time.Second)\<close> on: discovery, then step 3. A failed services
      query leaves \<open>rows\<close> nil, and \<open>rows.Next()\<close> panics\<close>
  "auto_discover_and_test env sessionId testType endpoints servicesMap report =
     and_then (perform (Sleep 15) ())
     (\<lambda>slept.
     and_then (db_stmt env (SelectServices sessionId) (select_services sessionId))
     (\<lambda>rows. case rows of
        Inl err \<Rightarrow> go_panic nil_dereference
      | Inr rows \<Rightarrow>
     and_then (auto_probe_services env sessionId rows report)
     (\<lambda>report. auto_run_test env sessionId testType endpoints servicesMap report)))"

definition TestApplicationTool_Handle :: "environment \<Rightarrow> auto_request \<Rightarrow> tool_result prog" where
  "TestApplicationTool_Handle env request =
     (case ta_composeSource request of
        None \<Rightarrow> return_result (ToolResultError ''Missing required composeSource'')
      | Some composeSource \<Rightarrow>
      (let testType = GetString (ta_testType request) ''standard'';
           endpoints = GetString (ta_endpoints request) '''';
           report = ''# Automated Application Testing\<newline>\<newline>'';
           report = report @ ''## Step 1: Setting up environment\<newline>''
       in and_then (FetchComposeContent env composeSource)
      (\<lambda>fetched. case fetched of
         Inl err \<Rightarrow> return_result (ToolResultError (''Failed to fetch compose file: '' @ err))
       | Inr content \<Rightarrow>
      and_then (StoreComposeFile env composeSource content)
      (\<lambda>stored. case stored of
         Inl err \<Rightarrow> return_result (ToolResultError (''Failed to store compose file: '' @ err))
       | Inr composeFileId \<Rightarrow>
      and_then (now env)
      (\<lambda>t.
       let sessionName = ''auto-test-'' @ format_d (Unix t)
       in and_then (db_stmt env (InsertSession composeFileId sessionName ''running'')
                     (insert_session composeFileId sessionName ''running''))
      (\<lambda>inserted. case inserted of
         Inl err \<Rightarrow> return_result (ToolResultError (''Failed to create session: '' @ err))
       | Inr sessionId \<Rightarrow>
      (let servicesMap = snd (yaml_Unmarshal env content)
       in and_then (range_services env servicesMap)
      (\<lambda>ranged.
      and_then (store_services env sessionId ranged)
      (\<lambda>stored.
       let report = report @ ''- Created session '' @ format_d sessionId @ '' with ''
                      @ format_d (int (length servicesMap)) @ '' services\<newline>'';
           report = report @ ''\<newline>## Step 2: Discovering APIs\<newline>''
       in and_then (WriteComposeToTemp env content sessionId)
      (\<lambda>written. case written of
         Inl err \<Rightarrow> return_result (ToolResultError (''Failed to write compose: '' @ err))
       | Inr composePath \<Rightarrow>
      go_defer (os_RemoveAll (filepath_Dir env composePath))
      (let projectName = auto_project_name sessionId
       in and_then (compose_up env composePath projectName)
      (\<lambda>(output, err). case err of
         Some e \<Rightarrow>
           return_result (ToolResultError (''Failed to start containers: '' @ e @ ''\<newline>'' @ output))
       | None \<Rightarrow>
      go_defer (auto_cleanup env composePath projectName sessionId)
        (auto_discover_and_test env sessionId testType endpoints servicesMap report)
      ))))))))))))"

section \<open>The cleanup bracket, read off a trace\<close>

definition up_of :: "event \<Rightarrow> (string \<times> string) list" where
  "up_of e = (case e of
                ComposeUp path project ok \<Rightarrow> (if ok then [(path, project)] else [])
              | other \<Rightarrow> [])"

definition down_of :: "event \<Rightarrow> (string \<times> string) list" where
  "down_of e = (case e of ComposeDown path project \<Rightarrow> [(path, project)] | other \<Rightarrow> [])"

definition removal_of :: "event \<Rightarrow> string list" where
  "removal_of e = (case e of RemoveAll dir \<Rightarrow> [dir] | other \<Rightarrow> [])"

definition successful_ups :: "event list \<Rightarrow> (string \<times> string) list" where
  \<comment> \<open>compose file and project of every bring-up that succeeded\<close>
  "successful_ups tr = concat (map up_of tr)"

definition teardowns :: "event list \<Rightarrow> (string \<times> string) list" where
  "teardowns tr = concat (map down_of tr)"

definition removals :: "event list \<Rightarrow> string list" where
  "removals tr = concat (map removal_of tr)"

definition teardown_before_removal :: "environment \<Rightarrow> event list \<Rightarrow> bool" where
  \<comment> \<open>no bring-up succeeded and nothing is torn down; or one did, and then exactly one
      teardown runs, for the same compose file and project, after the bring-up, no directory
      is removed before it, and the directory of the compose file is removed after it\<close>
  "teardown_before_removal env tr =
     (case successful_ups tr of
        [] \<Rightarrow> teardowns tr = []
      | (path, project) # rest \<Rightarrow>
          rest = []
          \<and> teardowns tr = [(path, project)]
          \<and> ComposeUp path project True \<in> set (takeWhile (\<lambda>e. e \<noteq> ComposeDown path project) tr)
          \<and> removals (takeWhile (\<lambda>e. e \<noteq> ComposeDown path project) tr) = []
          \<and> RemoveAll (filepath_Dir env path)
               \<in> set (dropWhile (\<lambda>e. e \<noteq> ComposeDown path project) tr))"

section \<open>Concrete environments and stores for evaluation\<close>

definition empty_world :: world where
  "empty_world =
     \<lparr>db_compose_files = [], db_test_sessions = [], db_services = [], db_api_specs = [], db_endpoints = [],
      db_tests = [], db_test_runs = [], db_metrics = [], trace = []\<rparr>"

definition base_env :: environment where
  \<comment> \<open>nothing reachable, nothing readable, every command succeeds; the store has the tables
      of \<open>initDB\<close>, so the query that orders \<open>test_sessions\<close> by \<open>created_at\<close> fails\<close>
  "base_env =
     \<lparr>http_Get = (\<lambda>url. Inl ''connection refused''),
      os_ReadFile = (\<lambda>path. Inl ''no such file or directory''),
      os_TempDir = ''/tmp'',
      filepath_Join = (\<lambda>dir name. dir @ ''/'' @ name),
      filepath_Dir = (\<lambda>path. rev (drop 1 (dropWhile (\<lambda>c. c \<noteq> CHR ''/'') (rev path)))),
      os_MkdirAll = (\<lambda>path. None),
      os_WriteFile = (\<lambda>path content. None),
      os_CreateTemp = (\<lambda>pattern. Inr (''/tmp/'' @ pattern)),
      time_Now = (\<lambda>n. 1700000000000000000 + int n),
      docker_compose_up = (\<lambda>path project. ('''', None)),
      docker_compose_down = (\<lambda>path project. None),
      k6_run = (\<lambda>args. (''ok'', None)),
      md5_hex = (\<lambda>content. content),
      fmt_float = (\<lambda>digits x. format_d (floor x)),
      strings_TrimSpace = (\<lambda>s. s),
      yaml_Unmarshal = (\<lambda>content. (None, [])),
      map_range = (\<lambda>n xs. xs),
      db_fault = (\<lambda>s. None),
      latest_session = (\<lambda>rows. Inl ''no such column: created_at''),
      sql_text_eq_int = (\<lambda>text i. text = format_d i)\<rparr>"

definition env_204 :: environment where
  \<comment> \<open>the server answers 204 No Content\<close>
  "env_204 = base_env\<lparr>http_Get := (\<lambda>url. Inr (Response 204 (Inr ''services: {}'')))\<rparr>"

definition env_200 :: environment where
  "env_200 = base_env\<lparr>http_Get := (\<lambda>url. Inr (Response 200 (Inr ''services: {}'')))\<rparr>"

definition world_sla :: world where
  \<comment> \<open>run 1 measured two endpoints; both have the thresholds 500 ms and 5 percent\<close>
  "world_sla = empty_world
     \<lparr>db_endpoints :=
        [\<lparr>ep_path = ''/slow'', ep_sla_response_time = Some 500, ep_sla_error_rate = Some (5 / 100)\<rparr>,
         \<lparr>ep_path = ''/fast'', ep_sla_response_time = Some 500, ep_sla_error_rate = Some (5 / 100)\<rparr>],
      db_metrics :=
        [\<lparr>m_run_id = 1, m_endpoint = ''/slow'', m_avg_response_time = 600, m_min_response_time = 50,
          m_max_response_time = 900, m_error_rate = 2 / 100, m_requests_per_second = 85\<rparr>,
         \<lparr>m_run_id = 1, m_endpoint = ''/fast'', m_avg_response_time = 400, m_min_response_time = 50,
          m_max_response_time = 500, m_error_rate = 2 / 100, m_requests_per_second = 85\<rparr>]\<rparr>"

definition world_partial_sla :: world where
  \<comment> \<open>the endpoint has a response time threshold and no error rate threshold\<close>
  "world_partial_sla = empty_world
     \<lparr>db_endpoints :=
        [\<lparr>ep_path = ''/slow'', ep_sla_response_time = Some 500, ep_sla_error_rate = None\<rparr>],
      db_metrics :=
        [\<lparr>m_run_id = 1, m_endpoint = ''/slow'', m_avg_response_time = 600, m_min_response_time = 50,
          m_max_response_time = 900, m_error_rate = 2 / 100, m_requests_per_second = 85\<rparr>]\<rparr>"

definition analyze_run_1 :: analyze_request where
  "analyze_run_1 = \<lparr>an_runId = Some ''1'', an_compareHistory = None\<rparr>"



definition world_ready :: world where
  \<comment> \<open>one compose file, one session with the service \<open>web\<close>, one generated test\<close>
  "world_ready = empty_world
     \<lparr>db_compose_files :=
        [\<lparr>cf_id = 1, cf_source_url = ''a.yml'', cf_content = ''services: {}'',
          cf_hash = ''services: {}''\<rparr>],
      db_test_sessions :=
        [\<lparr>ts_id = 1, ts_compose_file_id = 1, ts_session_name = ''session-1'',
          ts_completed_at = None, ts_status = ''initialized''\<rparr>],
      db_services :=
        [\<lparr>sv_id = 1, sv_session_id = 1, sv_name = ''web'', sv_image = ''nginx'',
          sv_ports = ''8080:80''\<rparr>],
      db_tests :=
        [\<lparr>t_id = 1, t_session_id = 1, t_name = ''api-test'', t_type = ''load'',
          t_script = ''export default function () {}''\<rparr>]\<rparr>"

definition run_test_1 :: run_request where
  "run_test_1 = \<lparr>rp_testId = Some ''1'', rp_vus = None, rp_duration = None\<rparr>"

definition env_k6_fails :: environment where
  \<comment> \<open>k6 exits with a non-zero status\<close>
  "env_k6_fails = base_env\<lparr>k6_run := (\<lambda>args. (''thresholds crossed'', Some ''exit status 99''))\<rparr>"

definition env_insert_fails :: environment where
  \<comment> \<open>the storage engine rejects every insert into \<open>test_runs\<close>\<close>
  "env_insert_fails = base_env
     \<lparr>db_fault := (\<lambda>s. case s of
                          InsertTestRun testId vus duration \<Rightarrow> Some ''database is locked''
                        | other \<Rightarrow> None)\<rparr>"




definition env_later :: environment where
  \<comment> \<open>the same machine nine tenths of a second later\<close>
  "env_later = base_env\<lparr>time_Now := (\<lambda>n. 1700000000900000000 + int n)\<rparr>"


section \<open>Notions used in the proofs about traces\<close>

definition quiet :: "event \<Rightarrow> bool" where
  \<comment> \<open>an event that is neither a bring-up, nor a teardown, nor the removal of a directory\<close>
  "quiet e =
     (case e of
        ComposeUp path project ok \<Rightarrow> False
      | ComposeDown path project \<Rightarrow> False
      | RemoveAll dir \<Rightarrow> False
      | other \<Rightarrow> True)"

definition quiet_prog :: "'a prog \<Rightarrow> bool" where
  "quiet_prog m = (\<forall>w. \<exists>es. trace (fst (m w)) = trace w @ es \<and> list_all quiet es)"

definition quiet_cleanup :: "(world \<Rightarrow> world) \<Rightarrow> bool" where
  "quiet_cleanup c = (\<forall>w. \<exists>es. trace (c w) = trace w @ es \<and> list_all quiet es)"

definition down_cleanup :: "(world \<Rightarrow> world) \<Rightarrow> string \<Rightarrow> string \<Rightarrow> bool" where
  "down_cleanup c path project =
     (\<forall>w. \<exists>es. trace (c w) = trace w @ ComposeDown path project # es \<and> list_all quiet es)"

definition inner_ok :: "string \<Rightarrow> event list \<Rightarrow> bool" where
  "inner_ok path tr =
     (removals tr = []
      \<and> (case successful_ups tr of
            [] \<Rightarrow> teardowns tr = []
          | (p, n) # rest \<Rightarrow>
              rest = [] \<and> p = path \<and> teardowns tr = [(p, n)]
              \<and> ComposeUp p n True \<in> set (takeWhile (\<lambda>e. e \<noteq> ComposeDown p n) tr)))"

definition inner_prog :: "string \<Rightarrow> 'a prog \<Rightarrow> bool" where
  "inner_prog path m = (\<forall>w. list_all quiet (trace w) \<longrightarrow> inner_ok path (trace (fst (m w))))"

definition guarded :: "environment \<Rightarrow> 'a prog \<Rightarrow> bool" where
  "guarded env m =
     (\<forall>w. list_all quiet (trace w) \<longrightarrow> teardown_before_removal env (trace (fst (m w))))"

definition wp ::
  "'a prog \<Rightarrow> ('a \<Rightarrow> world \<Rightarrow> bool) \<Rightarrow> (tool_result outcome \<Rightarrow> world \<Rightarrow> bool) \<Rightarrow> world \<Rightarrow> bool" where
  \<comment> \<open>what holds after a program: \<open>Qn\<close> when it continues, \<open>Qs\<close> when it leaves the function\<close>
  "wp m Qn Qs w = (case m w of (w', Next x) \<Rightarrow> Qn x w' | (w', Stop out) \<Rightarrow> Qs out w')"

section \<open>Properties of test generation\<close>

lemma Contains_iff: "Contains s substr \<longleftrightarrow> (\<exists>ps ss. s = ps @ substr @ ss)"
proof -
  have hp: "HasPrefix t p \<longleftrightarrow> (\<exists>ss. t = p @ ss)" for t p
    by (induction t p rule: HasPrefix.induct) auto
  show ?thesis
  proof (induction s)
    case Nil
    then show ?case by auto
  next
    case (Cons c s)
    show ?case
    proof
      assume "Contains (c # s) substr"
      then consider "HasPrefix (c # s) substr" | "Contains s substr" by auto
      then show "\<exists>ps ss. c # s = ps @ substr @ ss"
      proof cases
        case 1
        then obtain ss where "c # s = substr @ ss" using hp by blast
        then have "c # s = [] @ substr @ ss" by simp
        then show ?thesis by blast
      next
        case 2
        then obtain ps ss where "s = ps @ substr @ ss" using Cons.IH by blast
        then have "c # s = (c # ps) @ substr @ ss" by simp
        then show ?thesis by blast
      qed
    next
      assume "\<exists>ps ss. c # s = ps @ substr @ ss"
      then obtain ps ss where eq: "c # s = ps @ substr @ ss" by blast
      show "Contains (c # s) substr"
      proof (cases ps)
        case Nil
        then have "HasPrefix (c # s) substr" using eq hp by auto
        then show ?thesis by simp
      next
        case (Cons a ps')
        then have "s = ps' @ substr @ ss" using eq by simp
        then have "Contains s substr" using Cons.IH by blast
        then show ?thesis by simp
      qed
    qed
  qed
qed

lemma append_actions_concat:
  "append_actions script actions =
     script @ concat (map (\<lambda>action. ''    '' @ action @ ''\<newline>'') actions)"
  by (induction actions arbitrary: script) simp_all

lemma actions_distinct:
  "click_action \<noteq> type_action" "click_action \<noteq> wait_action" "type_action \<noteq> wait_action"
  by (simp_all add: click_action_def type_action_def wait_action_def)

text \<open>
  C9. For every instruction string, the parser emits the click action iff the lowered text
  contains both "click" and "button", the type action iff it contains "type" or "enter", and
  the wait action iff it contains "wait"; an instruction matching none of them yields no
  action; the emitted actions always stand in the scan order click, type, wait; and the
  script is a fixed prologue, the same for every url and instruction and free of any
  awaited page operation, then the navigation \<open>await page.goto('<url>');\<close>, then exactly
  these actions, one per line, then the closing block.
\<close>

theorem ParseUIInstructions_keywords:
  fixes ToLower :: "string \<Rightarrow> string"
  defines "low \<equiv> \<lambda>instructions. ToLower instructions"
  shows "(click_action \<in> set (ParseUIInstructions ToLower instructions)
            \<longleftrightarrow> Contains (low instructions) ''click'' \<and> Contains (low instructions) ''button'')
       \<and> (type_action \<in> set (ParseUIInstructions ToLower instructions)
            \<longleftrightarrow> Contains (low instructions) ''type'' \<or> Contains (low instructions) ''enter'')
       \<and> (wait_action \<in> set (ParseUIInstructions ToLower instructions)
            \<longleftrightarrow> Contains (low instructions) ''wait'')
       \<and> (ParseUIInstructions ToLower instructions = []
            \<longleftrightarrow> \<not> (Contains (low instructions) ''click'' \<and> Contains (low instructions) ''button'')
              \<and> \<not> (Contains (low instructions) ''type'' \<or> Contains (low instructions) ''enter'')
              \<and> \<not> Contains (low instructions) ''wait'')
       \<and> ParseUIInstructions ToLower instructions =
           filter (\<lambda>a. a \<in> set (ParseUIInstructions ToLower instructions))
                  [click_action, type_action, wait_action]
       \<and> generateK6UITest ToLower url instructions =
           ui_script_head url
           @ concat (map (\<lambda>action. ''    '' @ action @ ''\<newline>'')
                      (ParseUIInstructions ToLower instructions))
           @ ui_script_tail
       \<and> (\<exists>prologue. \<not> Contains prologue ''await''
            \<and> (\<forall>url instructions.
                  generateK6UITest ToLower url instructions =
                    prologue
                    @ ''    await page.goto('' @ [CHR 0x27] @ url @ [CHR 0x27] @ '');\<newline>''
                    @ ''    \<newline>''
                    @ concat (map (\<lambda>action. ''    '' @ action @ ''\<newline>'')
                               (ParseUIInstructions ToLower instructions))
                    @ ''  } finally {\<newline>''
                    @ ''    page.close();\<newline>''
                    @ ''  }\<newline>''
                    @ ''}''))"
proof -
  have parser: "(click_action \<in> set (ParseUIInstructions ToLower instructions)
            \<longleftrightarrow> Contains (low instructions) ''click'' \<and> Contains (low instructions) ''button'')
       \<and> (type_action \<in> set (ParseUIInstructions ToLower instructions)
            \<longleftrightarrow> Contains (low instructions) ''type'' \<or> Contains (low instructions) ''enter'')
       \<and> (wait_action \<in> set (ParseUIInstructions ToLower instructions)
            \<longleftrightarrow> Contains (low instructions) ''wait'')
       \<and> (ParseUIInstructions ToLower instructions = []
            \<longleftrightarrow> \<not> (Contains (low instructions) ''click'' \<and> Contains (low instructions) ''button'')
              \<and> \<not> (Contains (low instructions) ''type'' \<or> Contains (low instructions) ''enter'')
              \<and> \<not> Contains (low instructions) ''wait'')
       \<and> ParseUIInstructions ToLower instructions =
           filter (\<lambda>a. a \<in> set (ParseUIInstructions ToLower instructions))
                  [click_action, type_action, wait_action]"
    using actions_distinct
    by (auto simp: low_def ParseUIInstructions_def Let_def)
  have script: "generateK6UITest ToLower url instructions =
           ui_script_head url
           @ concat (map (\<lambda>action. ''    '' @ action @ ''\<newline>'')
                      (ParseUIInstructions ToLower instructions))
           @ ui_script_tail" for url instructions
    by (simp add: generateK6UITest_def Let_def append_actions_concat)
  define prologue where "prologue =
     ''import { browser } from 'k6/experimental/browser';\<newline>'' @
     ''import { check } from 'k6';\<newline>'' @
     ''\<newline>'' @
     ''export const options = {\<newline>'' @
     ''  scenarios: {\<newline>'' @
     ''    browser: {\<newline>'' @
     ''      executor: 'shared-iterations',\<newline>'' @
     ''      vus: 1,\<newline>'' @
     ''      iterations: 1,\<newline>'' @
     ''      options: {\<newline>'' @
     ''        browser: {\<newline>'' @
     ''          type: 'chromium',\<newline>'' @
     ''        },\<newline>'' @
     ''      },\<newline>'' @
     ''    },\<newline>'' @
     ''  },\<newline>'' @
     ''};\<newline>'' @
     ''\<newline>'' @
     ''export default async function () {\<newline>'' @
     ''  const page = browser.newPage();\<newline>'' @
     ''  \<newline>'' @
     ''  try {\<newline>''"
  have quiet: "\<not> Contains prologue ''await''"
    unfolding prologue_def by simp
  have head: "ui_script_head url =
      prologue @ ''    await page.goto('' @ [CHR 0x27] @ url @ [CHR 0x27] @ '');\<newline>'' @ ''    \<newline>''" for url
    by (simp add: ui_script_head_def prologue_def)
  have "\<forall>url instructions.
          generateK6UITest ToLower url instructions =
            prologue
            @ ''    await page.goto('' @ [CHR 0x27] @ url @ [CHR 0x27] @ '');\<newline>''
            @ ''    \<newline>''
            @ concat (map (\<lambda>action. ''    '' @ action @ ''\<newline>'')
                       (ParseUIInstructions ToLower instructions))
            @ ''  } finally {\<newline>''
            @ ''    page.close();\<newline>''
            @ ''  }\<newline>''
            @ ''}''"
    by (simp add: script head ui_script_tail_def)
  with quiet have "\<exists>prologue. \<not> Contains prologue ''await''
            \<and> (\<forall>url instructions.
                  generateK6UITest ToLower url instructions =
                    prologue
                    @ ''    await page.goto('' @ [CHR 0x27] @ url @ [CHR 0x27] @ '');\<newline>''
                    @ ''    \<newline>''
                    @ concat (map (\<lambda>action. ''    '' @ action @ ''\<newline>'')
                               (ParseUIInstructions ToLower instructions))
                    @ ''  } finally {\<newline>''
                    @ ''    page.close();\<newline>''
                    @ ''  }\<newline>''
                    @ ''}'')"
    by blast
  with parser script [of url instructions] show ?thesis
    by blast
qed

theorem ParseUIInstructions_keywords_witness:
  "ParseUIInstructions ascii_lower ''WAIT a bit, then Type a name and click the Button''
     = [click_action, type_action, wait_action]
   \<and> ParseUIInstructions ascii_lower ''scroll down'' = []"
proof -
  have l1: "ascii_lower ''WAIT a bit, then Type a name and click the Button''
            = ''wait a bit, then type a name and click the button''"
    by (simp add: ascii_lower_def ascii_lower_char_def)
  have l2: "ascii_lower ''scroll down'' = ''scroll down''"
    by (simp add: ascii_lower_def ascii_lower_char_def)
  have a: "ParseUIInstructions ascii_lower ''WAIT a bit, then Type a name and click the Button''
           = [click_action, type_action, wait_action]"
    by (simp add: ParseUIInstructions_def Let_def l1)
  have b: "ParseUIInstructions ascii_lower ''scroll down'' = []"
    using ParseUIInstructions_keywords [of ascii_lower "''scroll down''"]
    by (simp add: l2)
  from a b show ?thesis by simp
qed

text \<open>
  C10. For every spec id, endpoint list and test type the generated k6 API script is at
  least 200 bytes long, so the preview slice \<open>script[:200]\<close> is in range and
  \<open>GenerateAPITestsTool.Handle\<close> never panics, whatever the store answers.
\<close>

theorem generateK6APITest_preview_safe:
  "200 \<le> length (generateK6APITest specId endpoints testType)
   \<and> slice_to (generateK6APITest specId endpoints testType) 200
       = Return (take 200 (generateK6APITest specId endpoints testType))
   \<and> (\<forall>msg. GenerateAPITestsTool_Handle db request \<noteq> Panic msg)"
proof -
  have len: "200 \<le> length (generateK6APITest specId endpoints testType)" for specId endpoints testType
    by (simp add: generateK6APITest_def)
  have sl: "slice_to (generateK6APITest specId endpoints testType) 200
       = Return (take 200 (generateK6APITest specId endpoints testType))" for specId endpoints testType
    using len [of specId endpoints testType] by (simp add: slice_to_def)
  have "GenerateAPITestsTool_Handle db request \<noteq> Panic msg" for msg
    by (simp add: GenerateAPITestsTool_Handle_def Let_def sl split: option.splits sum.splits)
  with len sl show ?thesis by blast
qed

section \<open>Properties of the resolver, the store and the naming\<close>

subsection \<open>Evaluation of the program combinators\<close>

lemma and_then_Next: "m w = (w', Next x) \<Longrightarrow> and_then m f w = f x w'"
  by (simp add: and_then_def)

lemma and_then_Stop: "m w = (w', Stop out) \<Longrightarrow> and_then m f w = (w', Stop out)"
  by (simp add: and_then_def)

lemma and_then_yield: "and_then (yield x) f w = f x w"
  by (simp add: and_then_def yield_def)

lemma and_then_perform: "and_then (perform e x) f w = f x (record_event e w)"
  by (simp add: and_then_def perform_def)

lemma and_then_now: "and_then (now env) f w = f (time_Now env (length (trace w))) w"
  by (simp add: and_then_def now_def)

lemma trace_record_event: "trace (record_event e w) = trace w @ [e]"
  by (simp add: record_event_def)

lemma tables_record_event:
  "db_compose_files (record_event e w) = db_compose_files w"
  "db_test_sessions (record_event e w) = db_test_sessions w"
  "db_services (record_event e w) = db_services w"
  "db_api_specs (record_event e w) = db_api_specs w"
  "db_endpoints (record_event e w) = db_endpoints w"
  "db_tests (record_event e w) = db_tests w"
  "db_test_runs (record_event e w) = db_test_runs w"
  "db_metrics (record_event e w) = db_metrics w"
  by (simp_all add: record_event_def)

lemma db_stmt_healthy:
  "db_fault env s = None \<Longrightarrow> db_stmt env s eval w = (fst (eval (record_event (Db s) w)), Next (snd (eval (record_event (Db s) w))))"
  by (simp add: db_stmt_def Let_def split: prod.splits)

lemma db_stmt_fault:
  "db_fault env s = Some err \<Longrightarrow> db_stmt env s eval w = (record_event (Db s) w, Next (Inl err))"
  by (simp add: db_stmt_def Let_def)

subsection \<open>The resolver\<close>

text \<open>
  C8, as the code has it. A source with the prefix \<open>http://\<close> or \<open>https://\<close> is fetched by
  one GET and nothing else; the body is returned exactly when the GET meets no transport
  error, the status is exactly 200 and the body is read without error, and every other
  answer (a transport error, any status other than 200, a failed read of the body) is an
  error. Any other source is read once as a local file and fails exactly when the file
  cannot be read. Nothing is attempted a second time.
\<close>

theorem FetchComposeContent_single_attempt:
  "(if HasPrefix source ''http://'' \<or> HasPrefix source ''https://''
    then fst (FetchComposeContent env source w) = record_event (HttpGet source) w
       \<and> (\<forall>content. snd (FetchComposeContent env source w) = Next (Inr content)
             \<longleftrightarrow> http_Get env source = Inr (Response 200 (Inr content)))
       \<and> ((\<exists>err. snd (FetchComposeContent env source w) = Next (Inl err))
             \<longleftrightarrow> (\<exists>err. http_Get env source = Inl err)
               \<or> (\<exists>resp. http_Get env source = Inr resp
                      \<and> (StatusCode resp \<noteq> 200 \<or> (\<exists>err. Body resp = Inl err))))
    else fst (FetchComposeContent env source w) = record_event (ReadFile source) w
       \<and> (\<forall>content. snd (FetchComposeContent env source w) = Next (Inr content)
             \<longleftrightarrow> os_ReadFile env source = Inr content)
       \<and> ((\<exists>err. snd (FetchComposeContent env source w) = Next (Inl err))
             \<longleftrightarrow> (\<exists>err. os_ReadFile env source = Inl err)))"
proof (cases "HasPrefix source ''http://'' \<or> HasPrefix source ''https://''")
  case True
  show ?thesis
  proof (cases "http_Get env source")
    case (Inl err)
    with True show ?thesis
      by (simp add: FetchComposeContent_def and_then_perform yield_def)
  next
    case (Inr resp)
    obtain status body where resp: "resp = Response status body" by (cases resp)
    show ?thesis
    proof (cases body)
      case (Inl err)
      with True Inr resp show ?thesis
        by (simp add: FetchComposeContent_def and_then_perform yield_def)
    next
      case (Inr content)
      with True \<open>http_Get env source = Inr resp\<close> resp show ?thesis
        by (simp add: FetchComposeContent_def and_then_perform yield_def)
    qed
  qed
next
  case False
  then show ?thesis
    by (cases "os_ReadFile env source")
       (simp_all add: FetchComposeContent_def and_then_perform yield_def)
qed

theorem FetchComposeContent_single_attempt_witness:
  "FetchComposeContent env_200 ''https://example.com/docker-compose.yml'' empty_world
     = (record_event (HttpGet ''https://example.com/docker-compose.yml'') empty_world,
        Next (Inr ''services: {}''))"
proof -
  have get: "http_Get env_200 ''https://example.com/docker-compose.yml''
             = Inr (Response 200 (Inr ''services: {}''))"
    by (simp add: env_200_def base_env_def)
  have "snd (FetchComposeContent env_200 ''https://example.com/docker-compose.yml'' empty_world)
          = Next (Inr ''services: {}'')"
    using FetchComposeContent_single_attempt
            [of "''https://example.com/docker-compose.yml''" env_200 empty_world] get
    by simp
  moreover have "fst (FetchComposeContent env_200 ''https://example.com/docker-compose.yml'' empty_world)
          = record_event (HttpGet ''https://example.com/docker-compose.yml'') empty_world"
    using FetchComposeContent_single_attempt
            [of "''https://example.com/docker-compose.yml''" env_200 empty_world]
    by simp
  ultimately show ?thesis by (simp add: prod_eq_iff)
qed

text \<open>
  A GET that succeeds with status 204, a 2xx status, is not a success of the resolver:
  the body is dropped and an error is returned.
\<close>

theorem FetchComposeContent_204_counterexample:
  "http_Get env_204 ''https://example.com/docker-compose.yml'' = Inr (Response 204 (Inr ''services: {}''))
   \<and> snd (FetchComposeContent env_204 ''https://example.com/docker-compose.yml'' empty_world)
       = Next (Inl ''failed to download compose file: status 204'')"
  by (simp add: FetchComposeContent_def and_then_perform yield_def env_204_def base_env_def
      format_d_def nat_dec.simps)

subsection \<open>The compose file store\<close>

lemma find_append_rows:
  "find P (xs @ ys) = (case find P xs of None \<Rightarrow> find P ys | Some x \<Rightarrow> Some x)"
  by (induction xs) simp_all

lemma find_None_filter: "find P xs = None \<Longrightarrow> filter P xs = []"
  by (induction xs) (simp_all split: if_splits)

lemma find_Some_filter: "find P xs = Some x \<Longrightarrow> 1 \<le> length (filter P xs)"
  by (induction xs) (simp_all split: if_splits)

lemma StoreComposeFile_hit:
  assumes "db_fault env (SelectComposeIdByHash (md5_hex env content)) = None"
      and "find (\<lambda>row. cf_hash row = md5_hex env content) (db_compose_files w) = Some row"
  shows "StoreComposeFile env source content w
           = (record_event (Db (SelectComposeIdByHash (md5_hex env content))) w, Next (Inr (cf_id row)))"
  using assms
  by (simp add: StoreComposeFile_def Let_def and_then_def db_stmt_healthy
      select_compose_id_by_hash_def tables_record_event yield_def)

lemma StoreComposeFile_miss:
  assumes "db_fault env (SelectComposeIdByHash (md5_hex env content)) = None"
      and "find (\<lambda>row. cf_hash row = md5_hex env content) (db_compose_files w) = None"
      and "StoreComposeFile env source content w = (w1, Next (Inr id1))"
  shows "db_compose_files w1 = db_compose_files w @
           [\<lparr>cf_id = id1, cf_source_url = source, cf_content = content,
             cf_hash = md5_hex env content\<rparr>]"
proof (cases "db_fault env (InsertComposeFile source content (md5_hex env content))")
  case None
  with assms show ?thesis
    by (auto simp: StoreComposeFile_def Let_def and_then_def db_stmt_healthy
        select_compose_id_by_hash_def insert_compose_file_def tables_record_event yield_def)
next
  case (Some err)
  with assms show ?thesis
    by (simp add: StoreComposeFile_def Let_def and_then_def db_stmt_healthy db_stmt_fault
        select_compose_id_by_hash_def tables_record_event yield_def)
qed

text \<open>
  C2. Let the lookup by hash meet no fault of the storage engine, and let a first
  \<open>StoreComposeFile(s1, content)\<close> return the row id \<open>id1\<close>. Then a second
  \<open>StoreComposeFile(s2, content)\<close>, from any source, returns the same id, sends only the
  lookup to the store (no insert) and leaves every table as it was; and after the first
  call the number of rows with the hash of the content is one, unless the table already
  held several such rows before (then it is unchanged).
\<close>

theorem StoreComposeFile_dedup:
  assumes healthy: "db_fault env (SelectComposeIdByHash (md5_hex env content)) = None"
      and first: "StoreComposeFile env s1 content w = (w1, Next (Inr id1))"
  shows "StoreComposeFile env s2 content w1
           = (record_event (Db (SelectComposeIdByHash (md5_hex env content))) w1, Next (Inr id1))
       \<and> db_compose_files (fst (StoreComposeFile env s2 content w1)) = db_compose_files w1
       \<and> length (filter (\<lambda>row. cf_hash row = md5_hex env content) (db_compose_files w1))
           = max 1 (length (filter (\<lambda>row. cf_hash row = md5_hex env content) (db_compose_files w)))"
proof (cases "find (\<lambda>row. cf_hash row = md5_hex env content) (db_compose_files w)")
  case None
  let ?new = "\<lparr>cf_id = id1, cf_source_url = s1, cf_content = content,
               cf_hash = md5_hex env content\<rparr>"
  have rows: "db_compose_files w1 = db_compose_files w @ [?new]"
    using StoreComposeFile_miss [OF healthy None first] .
  have "find (\<lambda>row. cf_hash row = md5_hex env content) (db_compose_files w1) = Some ?new"
    by (simp add: rows find_append_rows None)
  from StoreComposeFile_hit [OF healthy this]
  have second: "StoreComposeFile env s2 content w1
           = (record_event (Db (SelectComposeIdByHash (md5_hex env content))) w1, Next (Inr id1))"
    by simp
  have "filter (\<lambda>row. cf_hash row = md5_hex env content) (db_compose_files w) = []"
    using None by (rule find_None_filter)
  then show ?thesis
    by (simp add: second tables_record_event rows)
next
  case (Some row)
  from StoreComposeFile_hit [OF healthy Some] first
  have w1: "w1 = record_event (Db (SelectComposeIdByHash (md5_hex env content))) w"
    and id1: "id1 = cf_id row"
    by simp_all
  have "find (\<lambda>row. cf_hash row = md5_hex env content) (db_compose_files w1) = Some row"
    by (simp add: w1 tables_record_event Some)
  from StoreComposeFile_hit [OF healthy this]
  have second: "StoreComposeFile env s2 content w1
           = (record_event (Db (SelectComposeIdByHash (md5_hex env content))) w1, Next (Inr id1))"
    by (simp add: id1)
  have "1 \<le> length (filter (\<lambda>row. cf_hash row = md5_hex env content) (db_compose_files w))"
    using Some by (rule find_Some_filter)
  moreover have "db_compose_files w1 = db_compose_files w"
    by (simp add: w1 tables_record_event)
  ultimately show ?thesis
    by (simp add: second tables_record_event)
qed

theorem StoreComposeFile_dedup_witness:
  "snd (StoreComposeFile base_env ''https://example.com/b.yml'' ''services: {}''
          (fst (StoreComposeFile base_env ''a.yml'' ''services: {}'' empty_world)))
     = Next (Inr 1)
   \<and> length (db_compose_files
        (fst (StoreComposeFile base_env ''https://example.com/b.yml'' ''services: {}''
           (fst (StoreComposeFile base_env ''a.yml'' ''services: {}'' empty_world))))) = 1"
proof -
  define w1 where "w1 = fst (StoreComposeFile base_env ''a.yml'' ''services: {}'' empty_world)"
  have healthy: "db_fault base_env (SelectComposeIdByHash (md5_hex base_env ''services: {}'')) = None"
    by (simp add: base_env_def)
  have first: "StoreComposeFile base_env ''a.yml'' ''services: {}'' empty_world = (w1, Next (Inr 1))"
    unfolding w1_def
    by (simp add: StoreComposeFile_def Let_def and_then_def db_stmt_def record_event_def
        select_compose_id_by_hash_def insert_compose_file_def yield_def next_id_def
        base_env_def empty_world_def ErrNoRows_def)
  have rows: "length (db_compose_files w1) = 1"
    unfolding w1_def
    by (simp add: StoreComposeFile_def Let_def and_then_def db_stmt_def record_event_def
        select_compose_id_by_hash_def insert_compose_file_def yield_def next_id_def
        base_env_def empty_world_def ErrNoRows_def)
  from StoreComposeFile_dedup [OF healthy first, of "''https://example.com/b.yml''"] rows
  show ?thesis
    unfolding w1_def by (simp add: tables_record_event)
qed


section \<open>Weakest preconditions of handler programs\<close>

named_theorems wp_simps

lemma wp_yield [wp_simps]: "wp (yield x) Qn Qs w = Qn x w"
  by (simp add: wp_def yield_def)

lemma wp_return_result [wp_simps]: "wp (return_result r) Qn Qs w = Qs (Return r) w"
  by (simp add: wp_def return_result_def)

lemma wp_go_panic [wp_simps]: "wp (go_panic msg) Qn Qs w = Qs (Panic msg) w"
  by (simp add: wp_def go_panic_def)

lemma wp_perform [wp_simps]: "wp (perform e x) Qn Qs w = Qn x (record_event e w)"
  by (simp add: wp_def perform_def)

lemma wp_now [wp_simps]: "wp (now env) Qn Qs w = Qn (time_Now env (length (trace w))) w"
  by (simp add: wp_def now_def)

lemma wp_and_then [wp_simps]: "wp (and_then m f) Qn Qs w = wp m (\<lambda>x. wp (f x) Qn Qs) Qs w"
  by (simp add: wp_def and_then_def split: prod.splits res.splits)

lemma wp_go_defer [wp_simps]:
  "wp (go_defer c m) Qn Qs w = wp m (\<lambda>x w'. Qn x (c w')) (\<lambda>out w'. Qs out (c w')) w"
  by (simp add: wp_def go_defer_def split: prod.splits res.splits)

lemma wp_db_stmt [wp_simps]:
  "wp (db_stmt env s eval) Qn Qs w =
     (case db_fault env s of
        Some err \<Rightarrow> Qn (Inl err) (record_event (Db s) w)
      | None \<Rightarrow> Qn (snd (eval (record_event (Db s) w))) (fst (eval (record_event (Db s) w))))"
  by (simp add: wp_def db_stmt_def Let_def split: prod.splits option.splits)

lemma wp_call: "P (call handler w) = wp handler (\<lambda>r w'. P (w', Return r)) (\<lambda>out w'. P (w', out)) w"
  by (simp add: wp_def call_def split: prod.splits res.splits)

lemma wp_WriteComposeToTemp [wp_simps]:
  "wp (WriteComposeToTemp env content sessionId) Qn Qs w =
     (let tempDir = temp_dir_name env sessionId (time_Now env (length (trace w)));
          composePath = filepath_Join env tempDir ''docker-compose.yml''
      in case os_MkdirAll env tempDir of
           Some e \<Rightarrow> Qn (Inl e) (record_event (MkdirAll tempDir) w)
         | None \<Rightarrow>
             (case os_WriteFile env composePath content of
                Some e \<Rightarrow> Qn (Inl e) (record_event (WriteFile composePath content)
                                      (record_event (MkdirAll tempDir) w))
              | None \<Rightarrow> Qn (Inr composePath) (record_event (WriteFile composePath content)
                                      (record_event (MkdirAll tempDir) w))))"
  by (simp add: WriteComposeToTemp_def wp_simps Let_def split: option.splits)

lemma wp_call_result:
  "wp handler (\<lambda>r w'. Q w' (Return r)) (\<lambda>out w'. Q w' out) w
   \<Longrightarrow> Q (fst (call handler w)) (snd (call handler w))"
  by (simp add: wp_def call_def split: prod.splits res.splits)


section \<open>Properties of the results analyzer\<close>

text \<open>
  C5. Run 1 measured 600 ms on \<open>/slow\<close>. On a store whose EndpointRecord for \<open>/slow\<close> has the
  response time threshold 500 and no error rate threshold, the report of the analysis
  holds no violation line: the scan of the two thresholds fails on the missing one and
  the handler skips both comparisons. On a store whose record has the same response time
  threshold and an error rate threshold, the same sample is reported as a response time
  violation.
\<close>

theorem analyze_partial_sla_unflagged:
  "map (\<lambda>row. (ep_path row, ep_sla_response_time row, ep_sla_error_rate row))
       (db_endpoints world_partial_sla) = [(''/slow'', Some 500, None)]
   \<and> map (\<lambda>m. (m_run_id m, m_endpoint m, m_avg_response_time m, m_error_rate m))
       (db_metrics world_partial_sla) = [(1, ''/slow'', 600, 2 / 100)]
   \<and> float64_of_int 500 < (600 :: real)
   \<and> snd (call (AnalyzeResultsTool_Handle base_env analyze_run_1) world_partial_sla)
       = Return (ToolResultText (render base_env
           [Title, RunIdLine ''1'',
            EndpointHeading ''/slow'', AvgResponseTime 600, ErrorRatePercent (2 / 100 * 100),
            BlankLine]))
   \<and> snd (call (AnalyzeResultsTool_Handle base_env analyze_run_1) world_sla)
       = Return (ToolResultText (render base_env
           [Title, RunIdLine ''1'',
            EndpointHeading ''/slow'', AvgResponseTime 600, ErrorRatePercent (2 / 100 * 100),
            SlaResponseTimeViolation 500, BlankLine,
            EndpointHeading ''/fast'', AvgResponseTime 400, ErrorRatePercent (2 / 100 * 100),
            BlankLine]))"
proof -
  have eq: "sql_text_eq_int base_env ''1'' 1"
    by (simp add: base_env_def format_d_def nat_dec.simps)
  have fault: "db_fault base_env = (\<lambda>s. None)"
    by (simp add: base_env_def)
  have conv: "float64_of_int 500 = 500"
    by (simp add: float64_of_int_def)
  have partial: "snd (call (AnalyzeResultsTool_Handle base_env analyze_run_1) world_partial_sla)
       = Return (ToolResultText (render base_env
           [Title, RunIdLine ''1'',
            EndpointHeading ''/slow'', AvgResponseTime 600, ErrorRatePercent (2 / 100 * 100),
            BlankLine]))"
    by (simp add: AnalyzeResultsTool_Handle_def analyze_run_1_def call_def Let_def
        and_then_def db_stmt_def fault yield_def return_result_def GetString_def
        select_run_metrics_def select_endpoint_sla_def
        analyze_row_def record_event_def world_partial_sla_def empty_world_def eq)
  have full: "snd (call (AnalyzeResultsTool_Handle base_env analyze_run_1) world_sla)
       = Return (ToolResultText (render base_env
           [Title, RunIdLine ''1'',
            EndpointHeading ''/slow'', AvgResponseTime 600, ErrorRatePercent (2 / 100 * 100),
            SlaResponseTimeViolation 500, BlankLine,
            EndpointHeading ''/fast'', AvgResponseTime 400, ErrorRatePercent (2 / 100 * 100),
            BlankLine]))"
    by (simp add: AnalyzeResultsTool_Handle_def analyze_run_1_def call_def Let_def
        and_then_def db_stmt_def fault yield_def return_result_def GetString_def
        select_run_metrics_def select_endpoint_sla_def conv
        analyze_row_def record_event_def world_sla_def empty_world_def eq)
  have rows: "map (\<lambda>row. (ep_path row, ep_sla_response_time row, ep_sla_error_rate row))
       (db_endpoints world_partial_sla) = [(''/slow'', Some 500, None)]"
    "map (\<lambda>m. (m_run_id m, m_endpoint m, m_avg_response_time m, m_error_rate m))
       (db_metrics world_partial_sla) = [(1, ''/slow'', 600, 2 / 100)]"
    by (simp_all add: world_partial_sla_def empty_world_def)
  from rows partial full show ?thesis by (simp add: conv)
qed

subsection \<open>Historical comparison\<close>








section \<open>What a program adds to the trace\<close>

named_theorems quiet_intros and eval_trace

lemma quiet_yield [quiet_intros]: "quiet_prog (yield x)"
  by (simp add: quiet_prog_def yield_def)

lemma quiet_return_result [quiet_intros]: "quiet_prog (return_result r)"
  by (simp add: quiet_prog_def return_result_def)

lemma quiet_go_panic [quiet_intros]: "quiet_prog (go_panic msg)"
  by (simp add: quiet_prog_def go_panic_def)

lemma quiet_now [quiet_intros]: "quiet_prog (now env)"
  by (simp add: quiet_prog_def now_def)

lemma quiet_range_services [quiet_intros]: "quiet_prog (range_services env servicesMap)"
  by (simp add: quiet_prog_def range_services_def)

lemma quiet_perform [quiet_intros]: "quiet e \<Longrightarrow> quiet_prog (perform e x)"
  by (simp add: quiet_prog_def perform_def trace_record_event)

lemma quiet_db_stmt [quiet_intros]:
  assumes "\<And>w. trace (fst (eval w)) = trace w"
  shows "quiet_prog (db_stmt env s eval)"
  unfolding quiet_prog_def
proof
  fix w
  obtain w2 r where e: "eval (record_event (Db s) w) = (w2, r)"
    by (cases "eval (record_event (Db s) w)")
  from assms [of "record_event (Db s) w"] e have "trace w2 = trace w @ [Db s]"
    by (simp add: trace_record_event)
  then have "trace (fst (db_stmt env s eval w)) = trace w @ [Db s]"
    by (cases "db_fault env s") (simp_all add: db_stmt_def Let_def e trace_record_event)
  then show "\<exists>es. trace (fst (db_stmt env s eval w)) = trace w @ es \<and> list_all quiet es"
    by (simp add: quiet_def)
qed

lemma quiet_and_then [quiet_intros]:
  assumes m: "quiet_prog m" and f: "\<And>x. quiet_prog (f x)"
  shows "quiet_prog (and_then m f)"
  unfolding quiet_prog_def
proof
  fix w
  obtain w1 r where mw: "m w = (w1, r)" by (cases "m w")
  from m obtain es where es: "trace w1 = trace w @ es" "list_all quiet es"
    unfolding quiet_prog_def using mw by (metis fst_conv)
  show "\<exists>es. trace (fst (and_then m f w)) = trace w @ es \<and> list_all quiet es"
  proof (cases r)
    case (Next x)
    from f [of x] obtain es' where "trace (fst (f x w1)) = trace w1 @ es'" "list_all quiet es'"
      unfolding quiet_prog_def by blast
    with es have "trace (fst (f x w1)) = trace w @ (es @ es')" "list_all quiet (es @ es')"
      by simp_all
    then show ?thesis
      unfolding and_then_def mw Next by (intro exI [of _ "es @ es'"]) simp
  next
    case (Stop out)
    with es show ?thesis by (simp add: and_then_def mw)
  qed
qed

lemma quiet_go_defer [quiet_intros]:
  assumes c: "quiet_cleanup c" and m: "quiet_prog m"
  shows "quiet_prog (go_defer c m)"
  unfolding quiet_prog_def
proof
  fix w
  obtain w1 r where mw: "m w = (w1, r)" by (cases "m w")
  from m obtain es where es: "trace w1 = trace w @ es" "list_all quiet es"
    unfolding quiet_prog_def using mw by (metis fst_conv)
  from c obtain es' where "trace (c w1) = trace w1 @ es'" "list_all quiet es'"
    unfolding quiet_cleanup_def by blast
  with es have "trace (c w1) = trace w @ (es @ es')" "list_all quiet (es @ es')"
    by simp_all
  then show "\<exists>es. trace (fst (go_defer c m w)) = trace w @ es \<and> list_all quiet es"
    unfolding go_defer_def mw by (intro exI [of _ "es @ es'"]) simp
qed

lemma quiet_os_Remove [quiet_intros]: "quiet_cleanup (os_Remove name)"
  by (simp add: quiet_cleanup_def os_Remove_def trace_record_event quiet_def)

lemma quiet_if [quiet_intros]:
  "quiet_prog a \<Longrightarrow> quiet_prog b \<Longrightarrow> quiet_prog (if c then a else b)"
  by simp

lemma quiet_Let [quiet_intros]: "quiet_prog (f x) \<Longrightarrow> quiet_prog (Let x f)"
  by simp

lemma quiet_case_sum [quiet_intros]:
  "(\<And>a. quiet_prog (f a)) \<Longrightarrow> (\<And>b. quiet_prog (g b))
   \<Longrightarrow> quiet_prog (case s of Inl a \<Rightarrow> f a | Inr b \<Rightarrow> g b)"
  by (cases s) simp_all

lemma quiet_case_option [quiet_intros]:
  "quiet_prog a \<Longrightarrow> (\<And>x. quiet_prog (g x))
   \<Longrightarrow> quiet_prog (case opt of None \<Rightarrow> a | Some x \<Rightarrow> g x)"
  by (cases opt) simp_all

lemma quiet_case_prod [quiet_intros]:
  "(\<And>a b. quiet_prog (f a b)) \<Longrightarrow> quiet_prog (case p of (a, b) \<Rightarrow> f a b)"
  by (cases p) simp

lemma quiet_case_list [quiet_intros]:
  "quiet_prog a \<Longrightarrow> (\<And>x xs. quiet_prog (g x xs))
   \<Longrightarrow> quiet_prog (case l of [] \<Rightarrow> a | x # xs \<Rightarrow> g x xs)"
  by (cases l) simp_all

lemma quiet_case_outcome [quiet_intros]:
  "(\<And>x. quiet_prog (f x)) \<Longrightarrow> (\<And>msg. quiet_prog (g msg))
   \<Longrightarrow> quiet_prog (case out of Return x \<Rightarrow> f x | Panic msg \<Rightarrow> g msg)"
  by (cases out) simp_all

lemma eval_traces [eval_trace]:
  "trace (fst (select_compose_id_by_hash h w)) = trace w"
  "trace (fst (insert_compose_file source content h w)) = trace w"
  "trace (fst (select_compose_content composeFileId w)) = trace w"
  "trace (fst (select_services sessionId w)) = trace w"
  "trace (fst (insert_api_spec sessionId spec w)) = trace w"
  "trace (fst (select_test env testId w)) = trace w"
  "trace (fst (select_session_compose sessionId w)) = trace w"
  "trace (fst (insert_test_run testId vus duration w)) = trace w"
  "trace (fst (update_test_run_results env runId output w)) = trace w"
  "trace (fst (insert_session composeFileId sessionName status w)) = trace w"
  "trace (fst (insert_service sessionId name img ports w)) = trace w"
  "trace (fst (insert_test sessionId name kind script w)) = trace w"
  "trace (fst (update_session_completed env sessionId w)) = trace w"
  "trace (fst (update_test_run_completed env runId w)) = trace w"
  by (simp_all add: select_compose_id_by_hash_def insert_compose_file_def
      select_compose_content_def select_services_def insert_api_spec_def select_test_def
      select_session_compose_def insert_test_run_def update_test_run_results_def
      insert_session_def insert_service_def insert_test_def update_session_completed_def
      update_test_run_completed_def Let_def)

lemma quiet_FetchComposeContent [quiet_intros]: "quiet_prog (FetchComposeContent env source)"
  unfolding FetchComposeContent_def
  by (intro quiet_intros) (simp_all add: quiet_def)

lemma quiet_StoreComposeFile [quiet_intros]: "quiet_prog (StoreComposeFile env source content)"
  unfolding StoreComposeFile_def
  by (intro quiet_intros) (simp_all add: eval_trace)

lemma quiet_WriteComposeToTemp [quiet_intros]: "quiet_prog (WriteComposeToTemp env content sessionId)"
  unfolding WriteComposeToTemp_def
  by (intro quiet_intros) (simp_all add: quiet_def)

lemma quiet_ParseAndStoreMetrics [quiet_intros]: "quiet_prog (ParseAndStoreMetrics env runId outputFile)"
  unfolding ParseAndStoreMetrics_def
  by (intro quiet_intros) simp_all

lemma quiet_probe_paths [quiet_intros]: "quiet_prog (probe_paths env baseURL paths discovered)"
proof (induction paths arbitrary: discovered)
  case Nil
  show ?case by (simp add: quiet_yield)
next
  case (Cons path paths)
  show ?case
    unfolding probe_paths.simps
    by (intro quiet_intros Cons.IH) (simp add: quiet_def)
qed

lemma quiet_probe_services [quiet_intros]: "quiet_prog (probe_services env rows discovered)"
proof (induction rows arbitrary: discovered)
  case Nil
  show ?case by (simp add: quiet_yield)
next
  case (Cons row rows)
  obtain svcId name ports where row: "row = (svcId, name, ports)" by (cases row) auto
  show ?case
    unfolding row probe_services.simps
    by (intro quiet_intros Cons.IH)
qed

lemma quiet_auto_discover [quiet_intros]: "quiet_prog (auto_discover env sessionId discovered)"
  unfolding auto_discover_def
  by (intro quiet_intros) (simp_all add: eval_trace)

lemma quiet_store_specs [quiet_intros]: "quiet_prog (store_specs env sessionId i specs result)"
proof (induction specs arbitrary: i result)
  case Nil
  show ?case by (simp add: quiet_yield)
next
  case (Cons spec specs)
  show ?case
    unfolding store_specs.simps
    by (intro quiet_intros Cons.IH) (simp_all add: eval_trace)
qed

lemma quiet_store_services [quiet_intros]: "quiet_prog (store_services env sessionId ranged)"
proof (induction ranged)
  case Nil
  show ?case by (simp add: quiet_yield)
next
  case (Cons entry ranged)
  obtain name service where entry: "entry = (name, service)" by (cases entry) auto
  show ?case
    unfolding entry store_services.simps
    by (intro quiet_intros Cons.IH) (simp_all add: eval_trace)
qed

lemma quiet_auto_probe_paths [quiet_intros]:
  "quiet_prog (auto_probe_paths env sessionId baseURL paths report)"
proof (induction paths arbitrary: report)
  case Nil
  show ?case by (simp add: quiet_yield)
next
  case (Cons path paths)
  show ?case
    unfolding auto_probe_paths.simps
    by (intro quiet_intros Cons.IH) (simp_all add: quiet_def eval_trace)
qed

lemma quiet_auto_probe_services [quiet_intros]:
  "quiet_prog (auto_probe_services env sessionId rows report)"
proof (induction rows arbitrary: report)
  case Nil
  show ?case by (simp add: quiet_yield)
next
  case (Cons row rows)
  obtain svcId name ports where row: "row = (svcId, name, ports)" by (cases row) auto
  show ?case
    unfolding row auto_probe_services.simps
    by (intro quiet_intros Cons.IH)
qed

lemma quiet_auto_run_test [quiet_intros]:
  "quiet_prog (auto_run_test env sessionId testType endpoints servicesMap report)"
  unfolding auto_run_test_def
  by (intro quiet_intros) (simp_all add: quiet_def eval_trace)

lemma quiet_auto_discover_and_test [quiet_intros]:
  "quiet_prog (auto_discover_and_test env sessionId testType endpoints servicesMap report)"
  unfolding auto_discover_and_test_def
  by (intro quiet_intros) (simp_all add: quiet_def eval_trace)

section \<open>The cleanup invariant\<close>

lemma quiet_lists:
  assumes "list_all quiet es"
  shows "successful_ups es = []" "teardowns es = []" "removals es = []"
    and "\<And>path project. ComposeDown path project \<notin> set es"
proof -
  have "quiet e \<Longrightarrow> up_of e = [] \<and> down_of e = [] \<and> removal_of e = []" for e
    by (cases e) (simp_all add: quiet_def up_of_def down_of_def removal_of_def)
  with assms show "successful_ups es = []" "teardowns es = []" "removals es = []"
    by (induction es) (simp_all add: successful_ups_def teardowns_def removals_def)
  show "ComposeDown path project \<notin> set es" for path project
    using assms by (induction es) (auto simp: quiet_def)
qed

lemma trace_reads_append:
  "successful_ups (xs @ ys) = successful_ups xs @ successful_ups ys"
  "teardowns (xs @ ys) = teardowns xs @ teardowns ys"
  "removals (xs @ ys) = removals xs @ removals ys"
  by (simp_all add: successful_ups_def teardowns_def removals_def)

lemma trace_reads_Cons:
  "successful_ups (e # es) = up_of e @ successful_ups es"
  "teardowns (e # es) = down_of e @ teardowns es"
  "removals (e # es) = removal_of e @ removals es"
  "successful_ups [] = []" "teardowns [] = []" "removals [] = []"
  by (simp_all add: successful_ups_def teardowns_def removals_def)

lemma trace_reads_single:
  "successful_ups [ComposeUp path project ok] = (if ok then [(path, project)] else [])"
  "teardowns [ComposeUp path project ok] = []"
  "removals [ComposeUp path project ok] = []"
  "successful_ups [ComposeDown path project] = []"
  "teardowns [ComposeDown path project] = [(path, project)]"
  "removals [ComposeDown path project] = []"
  "successful_ups [RemoveAll dir] = []"
  "teardowns [RemoveAll dir] = []"
  "removals [RemoveAll dir] = [dir]"
  by (simp_all add: successful_ups_def teardowns_def removals_def up_of_def down_of_def
      removal_of_def)

lemma inner_ok_quiet: "list_all quiet tr \<Longrightarrow> inner_ok path tr"
  by (simp add: inner_ok_def quiet_lists)

lemma removals_takeWhile: "removals tr = [] \<Longrightarrow> removals (takeWhile P tr) = []"
  by (induction tr) (auto simp: removals_def)

lemma teardown_in_trace: "teardowns tr = [(p, n)] \<Longrightarrow> ComposeDown p n \<in> set tr"
proof (induction tr)
  case Nil
  then show ?case by (simp add: teardowns_def)
next
  case (Cons e tr)
  show ?case
  proof (cases "down_of e = []")
    case True
    with Cons show ?thesis by (simp add: teardowns_def)
  next
    case False
    then obtain path project where "e = ComposeDown path project"
      by (cases e) (simp_all add: down_of_def)
    with Cons.prems show ?thesis by (simp add: teardowns_def down_of_def)
  qed
qed

lemma inner_return_result: "inner_prog path (return_result r)"
  by (simp add: inner_prog_def return_result_def inner_ok_quiet)

lemma inner_Let: "inner_prog path (f x) \<Longrightarrow> inner_prog path (Let x f)"
  by simp

lemma inner_now: "(\<And>t. inner_prog path (f t)) \<Longrightarrow> inner_prog path (and_then (now env) f)"
  by (simp add: inner_prog_def and_then_now)

lemma down_cleanup_compose_down: "down_cleanup (compose_down env path project) path project"
  by (simp add: down_cleanup_def compose_down_def trace_record_event)

lemma down_cleanup_auto_cleanup:
  "down_cleanup (auto_cleanup env path project sessionId) path project"
  unfolding down_cleanup_def
proof
  fix w
  let ?w1 = "compose_down env path project w"
  have "quiet_prog (db_stmt env (UpdateSessionCompleted sessionId) (update_session_completed env sessionId))"
    by (rule quiet_db_stmt) (simp add: eval_trace)
  then obtain es where
    "trace (fst (db_stmt env (UpdateSessionCompleted sessionId)
                   (update_session_completed env sessionId) ?w1)) = trace ?w1 @ es"
    "list_all quiet es"
    unfolding quiet_prog_def by blast
  then show "\<exists>es. trace (auto_cleanup env path project sessionId w)
               = trace w @ ComposeDown path project # es \<and> list_all quiet es"
    by (simp add: auto_cleanup_def compose_down_def trace_record_event)
qed

lemma inner_bracket:
  assumes c: "down_cleanup c path project"
      and body: "\<And>output. quiet_prog (body output)"
  shows "inner_prog path
           (and_then (compose_up env path project)
              (\<lambda>(output, err). case err of
                 None \<Rightarrow> go_defer c (body output)
               | Some e \<Rightarrow> return_result (fail output e)))"
  unfolding inner_prog_def
proof (intro allI impI)
  fix w :: world
  assume q: "list_all quiet (trace w)"
  obtain outp err where up: "docker_compose_up env path project = (outp, err)"
    by (cases "docker_compose_up env path project")
  let ?w1 = "record_event (ComposeUp path project (err = None)) w"
  let ?f = "\<lambda>(outp, err). case err of
                 None \<Rightarrow> go_defer c (body outp)
               | Some e \<Rightarrow> return_result (fail outp e)"
  have step: "and_then (compose_up env path project) ?f w = ?f (outp, err) ?w1"
    by (simp add: compose_up_def and_then_perform up)
  show "inner_ok path (trace (fst (and_then (compose_up env path project) ?f w)))"
  proof (cases err)
    case (Some e)
    have "trace (fst (and_then (compose_up env path project) ?f w))
            = trace w @ [ComposeUp path project False]"
      by (simp add: step Some return_result_def trace_record_event)
    then show ?thesis
      using q by (simp add: inner_ok_def trace_reads_append trace_reads_single quiet_lists)
  next
    case None
    obtain w2 r where b: "body outp ?w1 = (w2, r)" by (cases "body outp ?w1")
    from body [of outp] obtain es where es: "trace w2 = trace ?w1 @ es" "list_all quiet es"
      unfolding quiet_prog_def using b by (metis fst_conv)
    from c obtain es' where es': "trace (c w2) = trace w2 @ ComposeDown path project # es'"
      "list_all quiet es'"
      unfolding down_cleanup_def by blast
    let ?pre = "trace w @ [ComposeUp path project True] @ es"
    have tr: "trace (fst (and_then (compose_up env path project) ?f w))
                = ?pre @ ComposeDown path project # es'"
      using es es' b by (simp add: step None go_defer_def trace_record_event)
    have pre: "\<And>e. e \<in> set ?pre \<Longrightarrow> e \<noteq> ComposeDown path project"
      using quiet_lists(4) [OF q] quiet_lists(4) [OF es(2)] by auto
    have tw: "takeWhile (\<lambda>e. e \<noteq> ComposeDown path project) (?pre @ ComposeDown path project # es')
                = ?pre"
      by (subst takeWhile_append2) (use pre in auto)
    have reads: "successful_ups (?pre @ ComposeDown path project # es') = [(path, project)]"
      "teardowns (?pre @ ComposeDown path project # es') = [(path, project)]"
      "removals (?pre @ ComposeDown path project # es') = []"
      using q es(2) es'(2)
      by (simp_all add: trace_reads_append trace_reads_Cons quiet_lists up_of_def down_of_def
          removal_of_def)
    have tw': "takeWhile (\<lambda>e. e \<noteq> ComposeDown path project)
                 (trace w @ ComposeUp path project True # es @ ComposeDown path project # es')
               = trace w @ ComposeUp path project True # es"
      using tw by simp
    show ?thesis
      unfolding tr inner_ok_def reads by (simp add: tw')
  qed
qed

lemma guarded_defer_removal:
  assumes "inner_prog path m"
  shows "guarded env (go_defer (os_RemoveAll (filepath_Dir env path)) m)"
  unfolding guarded_def
proof (intro allI impI)
  fix w :: world
  assume q: "list_all quiet (trace w)"
  let ?tr = "trace (fst (m w))"
  let ?R = "RemoveAll (filepath_Dir env path)"
  from assms q have ok: "inner_ok path ?tr" by (simp add: inner_prog_def)
  have tr: "trace (fst (go_defer (os_RemoveAll (filepath_Dir env path)) m w)) = ?tr @ [?R]"
    by (simp add: go_defer_def os_RemoveAll_def trace_record_event split: prod.splits)
  show "teardown_before_removal env
          (trace (fst (go_defer (os_RemoveAll (filepath_Dir env path)) m w)))"
  proof (cases "successful_ups ?tr")
    case Nil
    with ok show ?thesis
      by (simp add: tr teardown_before_removal_def inner_ok_def trace_reads_append
          trace_reads_single)
  next
    case (Cons up rest)
    obtain p n where up: "up = (p, n)" by (cases up)
    from ok Cons up have facts: "rest = []" "p = path" "teardowns ?tr = [(path, n)]"
      "ComposeUp path n True \<in> set (takeWhile (\<lambda>e. e \<noteq> ComposeDown path n) ?tr)"
      "removals ?tr = []"
      by (auto simp: inner_ok_def)
    have down: "ComposeDown path n \<in> set ?tr"
      using facts(3) by (rule teardown_in_trace)
    have tw: "takeWhile (\<lambda>e. e \<noteq> ComposeDown path n) (?tr @ [?R])
                = takeWhile (\<lambda>e. e \<noteq> ComposeDown path n) ?tr"
      using down by (simp add: takeWhile_append1)
    have dw: "dropWhile (\<lambda>e. e \<noteq> ComposeDown path n) (?tr @ [?R])
                = dropWhile (\<lambda>e. e \<noteq> ComposeDown path n) ?tr @ [?R]"
      using down by (simp add: dropWhile_append1)
    show ?thesis
      unfolding tr teardown_before_removal_def
      using facts
      by (simp add: trace_reads_append trace_reads_single Cons up tw dw removals_takeWhile)
  qed
qed

lemma teardown_before_removal_quiet: "list_all quiet tr \<Longrightarrow> teardown_before_removal env tr"
  by (simp add: teardown_before_removal_def quiet_lists)

lemma guarded_quiet: "quiet_prog m \<Longrightarrow> guarded env m"
  unfolding guarded_def quiet_prog_def
  by (metis list_all_append teardown_before_removal_quiet)

lemma guarded_return_result: "guarded env (return_result r)"
  by (rule guarded_quiet) (rule quiet_return_result)

lemma guarded_and_then:
  assumes m: "quiet_prog m" and f: "\<And>x. guarded env (f x)"
  shows "guarded env (and_then m f)"
  unfolding guarded_def
proof (intro allI impI)
  fix w :: world
  assume q: "list_all quiet (trace w)"
  obtain w1 r where mw: "m w = (w1, r)" by (cases "m w")
  from m obtain es where "trace w1 = trace w @ es" "list_all quiet es"
    unfolding quiet_prog_def using mw by (metis fst_conv)
  with q have q1: "list_all quiet (trace w1)" by simp
  show "teardown_before_removal env (trace (fst (and_then m f w)))"
  proof (cases r)
    case (Next x)
    with f [of x] q1 show ?thesis by (simp add: and_then_def mw guarded_def)
  next
    case (Stop out)
    with q1 show ?thesis by (simp add: and_then_def mw teardown_before_removal_quiet)
  qed
qed

lemma guarded_Let: "guarded env (f x) \<Longrightarrow> guarded env (Let x f)"
  by simp

lemma guarded_case_sum:
  "(\<And>a. guarded env (f a)) \<Longrightarrow> (\<And>b. guarded env (g b))
   \<Longrightarrow> guarded env (case s of Inl a \<Rightarrow> f a | Inr b \<Rightarrow> g b)"
  by (cases s) simp_all

lemma guarded_case_option:
  "guarded env a \<Longrightarrow> (\<And>x. guarded env (g x))
   \<Longrightarrow> guarded env (case opt of None \<Rightarrow> a | Some x \<Rightarrow> g x)"
  by (cases opt) simp_all

lemma guarded_case_prod:
  "(\<And>a b. guarded env (f a b)) \<Longrightarrow> guarded env (case p of (a, b) \<Rightarrow> f a b)"
  by (cases p) simp

lemmas guarded_intros =
  guarded_and_then guarded_Let guarded_case_sum guarded_case_option guarded_case_prod
  guarded_return_result guarded_defer_removal inner_Let inner_now inner_bracket
  down_cleanup_compose_down down_cleanup_auto_cleanup

lemma guarded_DiscoverSpecsTool_Handle: "guarded env (DiscoverSpecsTool_Handle env request)"
  unfolding DiscoverSpecsTool_Handle_def
  by (intro guarded_intros quiet_intros) (simp_all add: quiet_def eval_trace)

lemma guarded_RunPerformanceTestTool_Handle: "guarded env (RunPerformanceTestTool_Handle env request)"
  unfolding RunPerformanceTestTool_Handle_def
  by (intro guarded_intros quiet_intros) (simp_all add: quiet_def eval_trace)

lemma guarded_QuickPerformanceTestTool_Handle: "guarded env (QuickPerformanceTestTool_Handle env request)"
  unfolding QuickPerformanceTestTool_Handle_def
  by (intro guarded_intros quiet_intros) (simp_all add: quiet_def eval_trace)

lemma guarded_TestApplicationTool_Handle: "guarded env (TestApplicationTool_Handle env request)"
  unfolding TestApplicationTool_Handle_def
  by (intro guarded_intros quiet_intros) (simp_all add: quiet_def eval_trace)

lemma call_world: "fst (call handler w) = fst (handler w)"
  by (simp add: call_def split: prod.splits res.splits)

lemmas run_eval_defs =
  RunPerformanceTestTool_Handle_def call_def Let_def and_then_def db_stmt_def
  yield_def return_result_def go_panic_def go_defer_def perform_def now_def record_event_def
  GetString_def select_test_def select_session_compose_def WriteComposeToTemp_def
  temp_dir_name_def perftest_project_name_def compose_up_def compose_down_def os_RemoveAll_def
  os_Remove_def insert_test_run_def update_test_run_results_def ParseAndStoreMetrics_def
  next_id_def Unix_def format_d_def nat_dec.simps
  world_ready_def empty_world_def run_test_1_def base_env_def

lemma run_insert_fails_eval:
  "trace (fst (call (RunPerformanceTestTool_Handle env_insert_fails run_test_1) world_ready))
     = [Db (SelectTest ''1''), Db (SelectSessionCompose 1),
        MkdirAll ''/tmp/k6-test-1-1700000000'',
        WriteFile ''/tmp/k6-test-1-1700000000/docker-compose.yml'' ''services: {}'',
        ComposeUp ''/tmp/k6-test-1-1700000000/docker-compose.yml'' ''perftest-1700000000'' True,
        Sleep 10, CreateTemp ''k6-test-*.js'',
        WriteString ''/tmp/k6-test-*.js'' ''export default function () {}'',
        Db (InsertTestRun ''1'' 10 ''30s''),
        Remove ''/tmp/k6-test-*.js'',
        ComposeDown ''/tmp/k6-test-1-1700000000/docker-compose.yml'' ''perftest-1700000000'',
        RemoveAll ''/tmp/k6-test-1-1700000000'']"
  "snd (call (RunPerformanceTestTool_Handle env_insert_fails run_test_1) world_ready)
     = Panic nil_dereference"
  by (simp_all add: run_eval_defs env_insert_fails_def)

lemma run_k6_fails_eval:
  "trace (fst (call (RunPerformanceTestTool_Handle env_k6_fails run_test_1) world_ready))
     = [Db (SelectTest ''1''), Db (SelectSessionCompose 1),
        MkdirAll ''/tmp/k6-test-1-1700000000'',
        WriteFile ''/tmp/k6-test-1-1700000000/docker-compose.yml'' ''services: {}'',
        ComposeUp ''/tmp/k6-test-1-1700000000/docker-compose.yml'' ''perftest-1700000000'' True,
        Sleep 10, CreateTemp ''k6-test-*.js'',
        WriteString ''/tmp/k6-test-*.js'' ''export default function () {}'',
        Db (InsertTestRun ''1'' 10 ''30s''),
        K6Run [''run'', ''--vus'', ''10'', ''--duration'', ''30s'', ''--out'',
               ''json=/tmp/k6-results-1.json'', ''/tmp/k6-test-*.js''],
        Remove ''/tmp/k6-test-*.js'',
        ComposeDown ''/tmp/k6-test-1-1700000000/docker-compose.yml'' ''perftest-1700000000'',
        RemoveAll ''/tmp/k6-test-1-1700000000'']"
  by (simp add: run_eval_defs env_k6_fails_def)

text \<open>
  C1. Each of the four operations that bring the runtime up, started on a fresh trace and
  run in any environment, leaves a trace in which: if the bring-up succeeded, the teardown
  \<open>docker compose down -v\<close> of the same compose file and project is executed exactly once,
  after the bring-up, before any directory is removed, and the working directory is removed
  after it; if no bring-up succeeded, no teardown is executed. The environment decides
  every outcome after the bring-up, so this covers the normal return, every error return
  and every panic.
\<close>

theorem cleanup_invariant:
  assumes "trace w = []"
  shows "teardown_before_removal env
           (trace (fst (call (DiscoverSpecsTool_Handle env discover) w)))
       \<and> teardown_before_removal env
           (trace (fst (call (RunPerformanceTestTool_Handle env run) w)))
       \<and> teardown_before_removal env
           (trace (fst (call (TestApplicationTool_Handle env auto) w)))
       \<and> teardown_before_removal env
           (trace (fst (call (QuickPerformanceTestTool_Handle env quick) w)))"
proof -
  have "list_all quiet (trace w)" using assms by simp
  with guarded_DiscoverSpecsTool_Handle [of env discover]
       guarded_RunPerformanceTestTool_Handle [of env run]
       guarded_TestApplicationTool_Handle [of env auto]
       guarded_QuickPerformanceTestTool_Handle [of env quick]
  show ?thesis
    by (simp add: guarded_def call_world)
qed

theorem cleanup_invariant_witness:
  "trace world_ready = []
   \<and> snd (call (RunPerformanceTestTool_Handle env_insert_fails run_test_1) world_ready)
       = Panic nil_dereference
   \<and> successful_ups
        (trace (fst (call (RunPerformanceTestTool_Handle env_insert_fails run_test_1) world_ready)))
       = [(''/tmp/k6-test-1-1700000000/docker-compose.yml'', ''perftest-1700000000'')]
   \<and> teardown_before_removal env_insert_fails
        (trace (fst (call (RunPerformanceTestTool_Handle env_insert_fails run_test_1) world_ready)))"
proof -
  have fresh: "trace world_ready = []"
    by (simp add: world_ready_def empty_world_def)
  have ups: "successful_ups
        (trace (fst (call (RunPerformanceTestTool_Handle env_insert_fails run_test_1) world_ready)))
       = [(''/tmp/k6-test-1-1700000000/docker-compose.yml'', ''perftest-1700000000'')]"
    unfolding run_insert_fails_eval
    by (simp add: successful_ups_def up_of_def)
  from cleanup_invariant [OF fresh, of env_insert_fails _ run_test_1] fresh ups
    run_insert_fails_eval(2)
  show ?thesis by simp
qed


section \<open>Auto-discovery\<close>













section \<open>Names of the runtime\<close>

text \<open>
  C3. The working directory is named from the session id and the clock in whole seconds,
  the project of a test run from the clock in whole seconds alone. Two runs of test 1 of
  session 1 are evaluated on the same store, the second reading the clock nine tenths of
  a second after the first: both bring the runtime up under the project
  \<open>perftest-1700000000\<close> in the working directory \<open>/tmp/k6-test-1-1700000000\<close>, although
  the clock readings of the two operations (each taken after the two statements that
  precede the naming of the directory) differ by 900 ms.
\<close>

theorem runtime_names_collide:
  "successful_ups (trace (fst (call (RunPerformanceTestTool_Handle base_env run_test_1) world_ready)))
     = [(''/tmp/k6-test-1-1700000000/docker-compose.yml'', ''perftest-1700000000'')]
   \<and> successful_ups (trace (fst (call (RunPerformanceTestTool_Handle env_later run_test_1) world_ready)))
     = [(''/tmp/k6-test-1-1700000000/docker-compose.yml'', ''perftest-1700000000'')]
   \<and> removals (trace (fst (call (RunPerformanceTestTool_Handle base_env run_test_1) world_ready)))
     = [''/tmp/k6-test-1-1700000000'']
   \<and> time_Now env_later 2 - time_Now base_env 2 = 900000000
   \<and> temp_dir_name base_env 1 (time_Now base_env 2)
       = temp_dir_name env_later 1 (time_Now env_later 2)
   \<and> perftest_project_name (time_Now base_env 4) = perftest_project_name (time_Now env_later 4)"
proof -
  have "successful_ups (trace (fst (call (RunPerformanceTestTool_Handle base_env run_test_1) world_ready)))
     = [(''/tmp/k6-test-1-1700000000/docker-compose.yml'', ''perftest-1700000000'')]"
    by (simp add: run_eval_defs successful_ups_def up_of_def)
  moreover have "successful_ups (trace (fst (call (RunPerformanceTestTool_Handle env_later run_test_1) world_ready)))
     = [(''/tmp/k6-test-1-1700000000/docker-compose.yml'', ''perftest-1700000000'')]"
    by (simp add: env_later_def run_eval_defs successful_ups_def up_of_def)
  moreover have "removals (trace (fst (call (RunPerformanceTestTool_Handle base_env run_test_1) world_ready)))
     = [''/tmp/k6-test-1-1700000000'']"
    by (simp add: run_eval_defs removals_def removal_of_def)
  moreover have "time_Now env_later 2 - time_Now base_env 2 = 900000000"
    by (simp add: env_later_def base_env_def)
  moreover have "temp_dir_name base_env 1 (time_Now base_env 2)
       = temp_dir_name env_later 1 (time_Now env_later 2)"
    by (simp add: temp_dir_name_def Unix_def env_later_def base_env_def)
  moreover have "perftest_project_name (time_Now base_env 4) = perftest_project_name (time_Now env_later 4)"
    by (simp add: perftest_project_name_def Unix_def env_later_def base_env_def)
  ultimately show ?thesis
    by blast
qed

section \<open>The audit row of a test run\<close>

lemma fold_max_ge: "(a :: int) \<le> fold max ids a"
proof (induction ids arbitrary: a)
  case Nil
  show ?case by simp
next
  case (Cons i ids)
  have "a \<le> max i a" by simp
  also have "\<dots> \<le> fold max ids (max i a)" by (rule Cons.IH)
  finally show ?case by simp
qed

lemma fold_max_member: "i \<in> set ids \<Longrightarrow> (i :: int) \<le> fold max ids a"
proof (induction ids arbitrary: a)
  case Nil
  then show ?case by simp
next
  case (Cons j ids)
  show ?case
  proof (cases "i = j")
    case True
    have "i \<le> max j a" using True by simp
    also have "\<dots> \<le> fold max ids (max j a)" by (rule fold_max_ge)
    finally show ?thesis by simp
  next
    case False
    with Cons.prems have "i \<in> set ids" by simp
    then show ?thesis using Cons.IH by simp
  qed
qed

lemma next_id_fresh: "i \<in> set ids \<Longrightarrow> i \<noteq> next_id ids"
  using fold_max_member [of i ids 0] by (simp add: next_id_def)

lemma update_other_rows:
  "map (\<lambda>row. if tr_id row = next_id (map tr_id rows) then f row else row) rows = rows"
proof -
  have "tr_id row \<noteq> next_id (map tr_id rows)" if "row \<in> set rows" for row
    using that next_id_fresh [of "tr_id row" "map tr_id rows"] by simp
  then show ?thesis by (simp add: map_idI)
qed

lemma run_failed:
  assumes fresh: "trace w = []" and tid: "rp_testId request = Some testId"
      and k6: "K6Run args \<in> set (trace (fst (call (RunPerformanceTestTool_Handle env request) w)))"
      and failed: "k6_run env args = (output, Some e)"
  shows "snd (call (RunPerformanceTestTool_Handle env request) w)
           = Return (ToolResultError (''Test execution failed: '' @ e @ ''\<newline>'' @ output))
       \<and> db_test_runs (fst (call (RunPerformanceTestTool_Handle env request) w))
           = db_test_runs w @
             [\<lparr>tr_id = next_id (map tr_id (db_test_runs w)), tr_test_id = testId,
               tr_completed_at = None,
               tr_vus = (case rp_vus request of None \<Rightarrow> 10 | Some v \<Rightarrow> v),
               tr_duration = GetString (rp_duration request) ''30s'', tr_results = None\<rparr>]
       \<and> \<not> list_ex is_run_update (trace (fst (call (RunPerformanceTestTool_Handle env request) w)))"
proof -
  define Q where "Q = (\<lambda>(w' :: world) out. K6Run args \<in> set (trace w') \<longrightarrow>
       out = Return (ToolResultError (''Test execution failed: '' @ e @ ''\<newline>'' @ output))
       \<and> db_test_runs w'
           = db_test_runs w @
             [\<lparr>tr_id = next_id (map tr_id (db_test_runs w)), tr_test_id = testId,
               tr_completed_at = None,
               tr_vus = (case rp_vus request of None \<Rightarrow> 10 | Some v \<Rightarrow> v),
               tr_duration = GetString (rp_duration request) ''30s'', tr_results = None\<rparr>]
       \<and> \<not> list_ex is_run_update (trace w'))"
  have "wp (RunPerformanceTestTool_Handle env request) (\<lambda>r w'. Q w' (Return r)) (\<lambda>out w'. Q w' out) w"
    unfolding RunPerformanceTestTool_Handle_def Q_def
    using failed
    apply (simp add: tid fresh Let_def wp_simps compose_up_def
        record_event_def select_test_def select_session_compose_def
        compose_down_def os_RemoveAll_def os_Remove_def insert_test_run_def is_run_update_def
        ParseAndStoreMetrics_def update_test_run_results_def
        split: option.split sum.split prod.split)
    apply auto
    done
  from wp_call_result [of _ Q, OF this] k6 show ?thesis
    by (simp add: Q_def)
qed


lemma run_succeeded:
  assumes fresh: "trace w = []" and tid: "rp_testId request = Some testId"
      and k6: "K6Run args \<in> set (trace (fst (call (RunPerformanceTestTool_Handle env request) w)))"
      and passed: "k6_run env args = (output, None)"
      and healthy: "db_fault env (UpdateTestRunResults (next_id (map tr_id (db_test_runs w))) output) = None"
  shows "(\<exists>ts. db_test_runs (fst (call (RunPerformanceTestTool_Handle env request) w))
           = db_test_runs w @
             [\<lparr>tr_id = next_id (map tr_id (db_test_runs w)), tr_test_id = testId,
               tr_completed_at = Some ts,
               tr_vus = (case rp_vus request of None \<Rightarrow> 10 | Some v \<Rightarrow> v),
               tr_duration = GetString (rp_duration request) ''30s'',
               tr_results = Some output\<rparr>])
       \<and> length (filter is_run_update (trace (fst (call (RunPerformanceTestTool_Handle env request) w)))) = 1
       \<and> snd (call (RunPerformanceTestTool_Handle env request) w)
           = Return (ToolResultText
               (''Test completed. Run ID: '' @ format_d (next_id (map tr_id (db_test_runs w)))
                @ ''\<newline>\<newline>Containers have been stopped and removed.\<newline>\<newline>'' @ output))"
proof -
  define Q where "Q = (\<lambda>(w' :: world) out. K6Run args \<in> set (trace w') \<longrightarrow>
       (\<exists>ts. db_test_runs w'
           = db_test_runs w @
             [\<lparr>tr_id = next_id (map tr_id (db_test_runs w)), tr_test_id = testId,
               tr_completed_at = Some ts,
               tr_vus = (case rp_vus request of None \<Rightarrow> 10 | Some v \<Rightarrow> v),
               tr_duration = GetString (rp_duration request) ''30s'',
               tr_results = Some output\<rparr>])
       \<and> length (filter is_run_update (trace w')) = 1
       \<and> out = Return (ToolResultText
               (''Test completed. Run ID: '' @ format_d (next_id (map tr_id (db_test_runs w)))
                @ ''\<newline>\<newline>Containers have been stopped and removed.\<newline>\<newline>'' @ output)))"
  have "wp (RunPerformanceTestTool_Handle env request) (\<lambda>r w'. Q w' (Return r)) (\<lambda>out w'. Q w' out) w"
    unfolding RunPerformanceTestTool_Handle_def Q_def
    using passed healthy
    apply (simp add: tid fresh Let_def wp_simps compose_up_def
        record_event_def select_test_def select_session_compose_def
        compose_down_def os_RemoveAll_def os_Remove_def insert_test_run_def is_run_update_def
        ParseAndStoreMetrics_def update_test_run_results_def update_other_rows
        split: option.split sum.split prod.split)
    apply auto
    done
  from wp_call_result [of _ Q, OF this] k6 show ?thesis
    by (simp add: Q_def)
qed

lemma run_inserts_first:
  assumes fresh: "trace w = []" and tid: "rp_testId request = Some testId"
      and k6: "K6Run args \<in> set (trace (fst (call (RunPerformanceTestTool_Handle env request) w)))"
  shows "Db (InsertTestRun testId (case rp_vus request of None \<Rightarrow> 10 | Some v \<Rightarrow> v)
               (GetString (rp_duration request) ''30s''))
           \<in> set (takeWhile (\<lambda>e. \<not> is_k6_run e)
                    (trace (fst (call (RunPerformanceTestTool_Handle env request) w))))"
proof -
  define Q where "Q = (\<lambda>(w' :: world) (out :: tool_result outcome). K6Run args \<in> set (trace w') \<longrightarrow>
       Db (InsertTestRun testId (case rp_vus request of None \<Rightarrow> 10 | Some v \<Rightarrow> v)
               (GetString (rp_duration request) ''30s''))
           \<in> set (takeWhile (\<lambda>e. \<not> is_k6_run e) (trace w')))"
  have "wp (RunPerformanceTestTool_Handle env request) (\<lambda>r w'. Q w' (Return r)) (\<lambda>out w'. Q w' out) w"
    unfolding RunPerformanceTestTool_Handle_def Q_def
    apply (simp add: tid fresh Let_def wp_simps compose_up_def
        record_event_def select_test_def select_session_compose_def
        compose_down_def os_RemoveAll_def os_Remove_def insert_test_run_def is_k6_run_def
        ParseAndStoreMetrics_def update_test_run_results_def
        split: option.split sum.split prod.split)
    done
  from wp_call_result [of _ Q, OF this] k6 show ?thesis
    by (simp add: Q_def)
qed

text \<open>
  C7. Let \<open>run_performance_test\<close> start on a fresh trace and reach the invocation of k6. Then
  the statement inserting the TestRun row was sent to the store before k6 was invoked.
  If k6 exits with an error, the operation returns the error result with the message of
  the error and the combined output, the run's row is the last row of \<open>test_runs\<close> with
  \<open>completed_at\<close> and \<open>results\<close> still NULL, and no update of the row is sent. If k6
  succeeds and the update meets no fault of the storage engine, the row holds a completion
  time and the output, exactly one update is sent, and the result reports the run id and
  the output.
\<close>

theorem test_run_lifecycle:
  assumes fresh: "trace w = []" and tid: "rp_testId request = Some testId"
      and k6: "K6Run args \<in> set (trace (fst (call (RunPerformanceTestTool_Handle env request) w)))"
      and exit: "k6_run env args = (output, err)"
      and healthy: "db_fault env (UpdateTestRunResults (next_id (map tr_id (db_test_runs w))) output) = None"
  shows "Db (InsertTestRun testId (case rp_vus request of None \<Rightarrow> 10 | Some v \<Rightarrow> v)
               (GetString (rp_duration request) ''30s''))
           \<in> set (takeWhile (\<lambda>e. \<not> is_k6_run e)
                    (trace (fst (call (RunPerformanceTestTool_Handle env request) w))))
       \<and> (case err of
            Some e \<Rightarrow>
              snd (call (RunPerformanceTestTool_Handle env request) w)
                = Return (ToolResultError (''Test execution failed: '' @ e @ ''\<newline>'' @ output))
              \<and> db_test_runs (fst (call (RunPerformanceTestTool_Handle env request) w))
                  = db_test_runs w @
                    [\<lparr>tr_id = next_id (map tr_id (db_test_runs w)), tr_test_id = testId,
                      tr_completed_at = None,
                      tr_vus = (case rp_vus request of None \<Rightarrow> 10 | Some v \<Rightarrow> v),
                      tr_duration = GetString (rp_duration request) ''30s'', tr_results = None\<rparr>]
              \<and> \<not> list_ex is_run_update
                    (trace (fst (call (RunPerformanceTestTool_Handle env request) w)))
          | None \<Rightarrow>
              (\<exists>ts. db_test_runs (fst (call (RunPerformanceTestTool_Handle env request) w))
                  = db_test_runs w @
                    [\<lparr>tr_id = next_id (map tr_id (db_test_runs w)), tr_test_id = testId,
                      tr_completed_at = Some ts,
                      tr_vus = (case rp_vus request of None \<Rightarrow> 10 | Some v \<Rightarrow> v),
                      tr_duration = GetString (rp_duration request) ''30s'',
                      tr_results = Some output\<rparr>])
              \<and> length (filter is_run_update
                    (trace (fst (call (RunPerformanceTestTool_Handle env request) w)))) = 1
              \<and> snd (call (RunPerformanceTestTool_Handle env request) w)
                  = Return (ToolResultText
                      (''Test completed. Run ID: '' @ format_d (next_id (map tr_id (db_test_runs w)))
                       @ ''\<newline>\<newline>Containers have been stopped and removed.\<newline>\<newline>''
                       @ output)))"
proof (cases err)
  case None
  with run_inserts_first [OF fresh tid k6] run_succeeded [OF fresh tid k6 _ healthy] exit
  show ?thesis by simp
next
  case (Some e)
  with run_inserts_first [OF fresh tid k6] run_failed [OF fresh tid k6] exit
  show ?thesis by simp
qed

theorem test_run_lifecycle_witness:
  "K6Run [''run'', ''--vus'', ''10'', ''--duration'', ''30s'', ''--out'',
          ''json=/tmp/k6-results-1.json'', ''/tmp/k6-test-*.js'']
     \<in> set (trace (fst (call (RunPerformanceTestTool_Handle env_k6_fails run_test_1) world_ready)))
   \<and> Db (InsertTestRun ''1'' 10 ''30s'')
       \<in> set (takeWhile (\<lambda>e. \<not> is_k6_run e)
                (trace (fst (call (RunPerformanceTestTool_Handle env_k6_fails run_test_1) world_ready))))
   \<and> snd (call (RunPerformanceTestTool_Handle env_k6_fails run_test_1) world_ready)
       = Return (ToolResultError ''Test execution failed: exit status 99\<newline>thresholds crossed'')
   \<and> db_test_runs (fst (call (RunPerformanceTestTool_Handle env_k6_fails run_test_1) world_ready))
       = [\<lparr>tr_id = 1, tr_test_id = ''1'', tr_completed_at = None, tr_vus = 10,
           tr_duration = ''30s'', tr_results = None\<rparr>]"
proof -
  let ?args = "[''run'', ''--vus'', ''10'', ''--duration'', ''30s'', ''--out'',
                ''json=/tmp/k6-results-1.json'', ''/tmp/k6-test-*.js'']"
  have fresh: "trace world_ready = []"
    by (simp add: world_ready_def empty_world_def)
  have tid: "rp_testId run_test_1 = Some ''1''"
    by (simp add: run_test_1_def)
  have k6: "K6Run ?args
     \<in> set (trace (fst (call (RunPerformanceTestTool_Handle env_k6_fails run_test_1) world_ready)))"
    unfolding run_k6_fails_eval by simp
  have exit: "k6_run env_k6_fails ?args = (''thresholds crossed'', Some ''exit status 99'')"
    by (simp add: env_k6_fails_def)
  have healthy: "db_fault env_k6_fails
      (UpdateTestRunResults (next_id (map tr_id (db_test_runs world_ready))) ''thresholds crossed'') = None"
    by (simp add: env_k6_fails_def base_env_def)
  have rows: "db_test_runs world_ready = []" "rp_vus run_test_1 = None" "rp_duration run_test_1 = None"
    by (simp_all add: world_ready_def empty_world_def run_test_1_def)
  from test_run_lifecycle [OF fresh tid k6 exit healthy] k6
  show ?thesis
    by (simp add: rows next_id_def GetString_def)
qed

end
